theory Spec2Isabelle
  imports Main
begin

section \<open>Python strings\<close>

text \<open>
  A Python \<open>str\<close> is modelled as a \<open>string\<close>, one \<open>char\<close> per code point; the
  model therefore covers the strings whose code points are below 256.
  \<open>is_space\<close> is \<open>str.isspace\<close> on one such code point, which is also the white-space
  class of \<open>re\<close> on \<open>str\<close> patterns and the set removed by \<open>str.strip()\<close>:
  code points 9 to 13, 28 to 32, 133 and 160.
\<close>

definition is_space :: "char \<Rightarrow> bool" where
  "is_space c = (of_char c \<in> {9, 10, 11, 12, 13, 28, 29, 30, 31, 32, 133, 160 :: nat})"

text \<open>\<open>s.strip()\<close> and \<open>s.strip(chars)\<close>.\<close>

definition strip_where :: "(char \<Rightarrow> bool) \<Rightarrow> string \<Rightarrow> string" where
  "strip_where P s = rev (dropWhile P (rev (dropWhile P s)))"

definition py_strip :: "string \<Rightarrow> string" where
  "py_strip s = strip_where is_space s"

definition py_strip_chars :: "string \<Rightarrow> string \<Rightarrow> string" where
  "py_strip_chars chars s = strip_where (\<lambda>c. c \<in> set chars) s"

text \<open>\<open>s.startswith(p)\<close> and \<open>sub in s\<close>.\<close>

fun startswith :: "string \<Rightarrow> string \<Rightarrow> bool" where
  "startswith s [] = True"
| "startswith [] (p # ps) = False"
| "startswith (c # cs) (p # ps) = (c = p \<and> startswith cs ps)"

fun py_in :: "string \<Rightarrow> string \<Rightarrow> bool" where
  "py_in sub [] = (sub = [])"
| "py_in sub (c # cs) = (startswith (c # cs) sub \<or> py_in sub cs)"

text \<open>\<open>s.split(sep)\<close> for a separator of one character: never an empty list.\<close>

fun py_split :: "char \<Rightarrow> string \<Rightarrow> string list" where
  "py_split sep [] = [[]]"
| "py_split sep (c # cs) =
     (if c = sep then [] # py_split sep cs
      else (case py_split sep cs of
              [] \<Rightarrow> [[c]]
            | w # ws \<Rightarrow> (c # w) # ws))"

text \<open>\<open>s.lower()\<close> on ASCII letters; the other code points below 256 that
  \<open>str.lower\<close> changes (192 to 222 except 215) are lowered as Python does.\<close>

definition lower_char :: "char \<Rightarrow> char" where
  "lower_char c =
     (let n = (of_char c :: nat) in
      if (65 \<le> n \<and> n \<le> 90) \<or> (192 \<le> n \<and> n \<le> 222 \<and> n \<noteq> 215)
      then char_of (n + 32) else c)"

definition py_lower :: "string \<Rightarrow> string" where
  "py_lower s = map lower_char s"

section \<open>The regular expressions of the source\<close>

text \<open>
  The patterns of \<open>server.py\<close> use literals, character classes, greedy \<open>*\<close> and
  \<open>+\<close> over a character class, alternation and one capturing group.
  \<open>rx_run\<close> lists every way the pattern matches a prefix of the text, in the order
  in which the backtracking matcher of \<open>re\<close> tries them: each result is the captured
  groups and the text left after the match. The first result is the match \<open>re\<close> reports.
  With \<open>ic\<close> (the flag \<open>re.IGNORECASE\<close>) characters are compared after lowering.
\<close>

datatype rx =
    Lit string
  | Cls "char \<Rightarrow> bool"
  | Star "char \<Rightarrow> bool"
  | Plus "char \<Rightarrow> bool"
  | Seq rx rx
  | Alt rx rx
  | Cap rx

fun lit_rest :: "bool \<Rightarrow> string \<Rightarrow> string \<Rightarrow> string option" where
  "lit_rest ic [] s = Some s"
| "lit_rest ic (p # ps) [] = None"
| "lit_rest ic (p # ps) (c # cs) =
     (if (if ic then lower_char c = lower_char p else c = p) then lit_rest ic ps cs else None)"

fun rx_run :: "bool \<Rightarrow> rx \<Rightarrow> string \<Rightarrow> (string list \<times> string) list" where
  "rx_run ic (Lit l) s = (case lit_rest ic l s of None \<Rightarrow> [] | Some r \<Rightarrow> [([], r)])"
| "rx_run ic (Cls P) s = (case s of [] \<Rightarrow> [] | c # cs \<Rightarrow> if P c then [([], cs)] else [])"
| "rx_run ic (Star P) s =
     map (\<lambda>k. ([], drop k s)) (rev [0 ..< Suc (length (takeWhile P s))])"
| "rx_run ic (Plus P) s =
     map (\<lambda>k. ([], drop k s)) (rev [1 ..< Suc (length (takeWhile P s))])"
| "rx_run ic (Seq a b) s =
     concat (map (\<lambda>(g1, r1). map (\<lambda>(g2, r2). (g1 @ g2, r2)) (rx_run ic b r1)) (rx_run ic a s))"
| "rx_run ic (Alt a b) s = rx_run ic a s @ rx_run ic b s"
| "rx_run ic (Cap a) s =
     map (\<lambda>(g, r). (take (length s - length r) s # g, r)) (rx_run ic a s)"

text \<open>\<open>pattern.match\<close> at the start of the text: the first way, if there is one.\<close>

definition rx_match :: "bool \<Rightarrow> rx \<Rightarrow> string \<Rightarrow> (string list \<times> string) option" where
  "rx_match ic p s = (case rx_run ic p s of [] \<Rightarrow> None | m # _ \<Rightarrow> Some m)"

text \<open>\<open>re.search\<close>: the match at the leftmost position that has one.\<close>

fun re_search :: "bool \<Rightarrow> rx \<Rightarrow> string \<Rightarrow> (string list \<times> string) option" where
  "re_search ic p [] = rx_match ic p []"
| "re_search ic p (c # cs) =
     (case rx_match ic p (c # cs) of
        Some m \<Rightarrow> Some m
      | None \<Rightarrow> re_search ic p cs)"

text \<open>
  \<open>re.sub(pattern, repl, s)\<close> for a replacement without group references: the
  non-overlapping matches, leftmost first, are replaced; after an empty match the
  next character is copied.
\<close>

function re_sub :: "bool \<Rightarrow> rx \<Rightarrow> string \<Rightarrow> string \<Rightarrow> string" where
  "re_sub ic p repl s =
     (case rx_match ic p s of
        Some (g, r) \<Rightarrow>
          if length r < length s then repl @ re_sub ic p repl r
          else (case s of [] \<Rightarrow> repl | c # cs \<Rightarrow> repl @ c # re_sub ic p repl cs)
      | None \<Rightarrow> (case s of [] \<Rightarrow> [] | c # cs \<Rightarrow> c # re_sub ic p repl cs))"
  by pat_completeness auto
termination
  by (relation "measure (\<lambda>(ic, p, repl, s). length s)") auto

declare re_sub.simps [simp del]

section \<open>Context extraction\<close>

text \<open>
  The dict built by \<open>extract_context_from_message\<close>, with its four keys
  \<open>session_id\<close>, \<open>path\<close>, \<open>bot_id\<close> and \<open>clean_message\<close>; \<open>None\<close> is Python's
  \<open>None\<close>.
\<close>

record session_ctx =
  ctx_session_id :: "string option"
  ctx_path :: "string option"
  ctx_bot_id :: "string option"
  ctx_clean_message :: string

text \<open>
  The extraction pattern of a tag: the literal \<open>[NAME:\<close>, white space (greedy, maybe
  none), a captured group of one or more characters other than the closing bracket
  (greedy), the closing bracket. The removal pattern: the literal \<open>[NAME:\<close>, any
  number of characters other than the closing bracket, the closing bracket, then white
  space (greedy, maybe none).
\<close>

definition tag_value_rx :: "string \<Rightarrow> rx" where
  "tag_value_rx name =
     Seq (Lit (''['' @ name @ '':''))
       (Seq (Star is_space) (Seq (Cap (Plus (\<lambda>c. c \<noteq> CHR '']''))) (Lit '']'')))"

definition tag_remove_rx :: "string \<Rightarrow> rx" where
  "tag_remove_rx name =
     Seq (Lit (''['' @ name @ '':''))
       (Seq (Star (\<lambda>c. c \<noteq> CHR '']'')) (Seq (Lit '']'') (Star is_space)))"

text \<open>\<open>m.group(1).strip()\<close> when the search matched, \<open>None\<close> otherwise.\<close>

definition extract_tag :: "string \<Rightarrow> string \<Rightarrow> string option" where
  "extract_tag name message =
     (case re_search False (tag_value_rx name) message of
        None \<Rightarrow> None
      | Some (g, r) \<Rightarrow> Some (py_strip (hd g)))"

definition extract_context_from_message :: "string \<Rightarrow> session_ctx" where
  "extract_context_from_message message =
     (let clean1 = re_sub False (tag_remove_rx ''SESSION_ID'') [] message;
          clean2 = re_sub False (tag_remove_rx ''PATH'') [] clean1;
          clean3 = re_sub False (tag_remove_rx ''BOT_ID'') [] clean2
      in \<lparr> ctx_session_id = extract_tag ''SESSION_ID'' message,
           ctx_path = extract_tag ''PATH'' message,
           ctx_bot_id = extract_tag ''BOT_ID'' message,
           ctx_clean_message = py_strip clean3 \<rparr>)"

text \<open>\<open>get_bot_id_from_path\<close>: the text after the last slash of the path without
  its leading and trailing slashes.\<close>

definition get_bot_id_from_path :: "string \<Rightarrow> string" where
  "get_bot_id_from_path p =
     (if p = [] then [] else last (py_split (CHR ''/'') (py_strip_chars ''/'' p)))"

section \<open>Python values and exceptions\<close>

text \<open>
  An optional string parameter is \<open>None\<close> or a string. \<open>falsy\<close> is Python's \<open>not x\<close>,
  \<open>py_or a b\<close> is \<open>a or b\<close>, \<open>py_str\<close> is what an f-string prints.
\<close>

definition falsy :: "string option \<Rightarrow> bool" where
  "falsy x = (case x of None \<Rightarrow> True | Some s \<Rightarrow> s = [])"

definition py_or :: "string option \<Rightarrow> string option \<Rightarrow> string option" where
  "py_or a b = (if falsy a then b else a)"

definition py_str :: "string option \<Rightarrow> string" where
  "py_str x = (case x of None \<Rightarrow> ''None'' | Some s \<Rightarrow> s)"

text \<open>
  The exceptions of the model: the \<open>NameError\<close> of an unbound name, and any other
  exception raised by library code (the file system, the vector index), with its text.
  \<open>exn_str\<close> is \<open>str(e)\<close>.
\<close>

datatype exn = NameError string | LibraryError string

definition exn_str :: "exn \<Rightarrow> string" where
  "exn_str e =
     (case e of
        NameError n \<Rightarrow> ''name '' @ [CHR 0x27] @ n @ [CHR 0x27] @ '' is not defined''
      | LibraryError m \<Rightarrow> m)"

text \<open>\<open>str(i)\<close> for an integer: the decimal digits of its absolute value.\<close>

function digits_of :: "int \<Rightarrow> string" where
  "digits_of n =
     (if n < 10 then [char_of (48 + n)]
      else digits_of (n div 10) @ [char_of (48 + n mod 10)])"
  by pat_completeness auto
termination
  by (relation "measure nat") auto

declare digits_of.simps [simp del]

definition str_int :: "int \<Rightarrow> string" where
  "str_int i = (if i < 0 then CHR ''-'' # digits_of (- i) else digits_of i)"

text \<open>
  The names bound at module level in \<open>server.py\<close> when a tool runs: its imports, its
  assignments, its functions and its class. A global name that is not among them (and
  is not a builtin; \<open>logger\<close> is none) raises \<open>NameError\<close> when it is read.
\<close>

definition module_globals :: "string list" where
  "module_globals =
     [''sys'', ''os'', ''io'', ''requests'', ''json'', ''re'', ''contextvars'', ''time'',
      ''urlparse'', ''tool'', ''Pinecone'', ''BaseModel'', ''StructuredTool'',
      ''root_validator'', ''Dict'', ''Optional'', ''PINECONE_API_KEY'',
      ''PINECONE_INDEX_NAME'', ''FORM_URL_1'', ''FORM_URL_2'', ''cancelAppointmentFormUrl'',
      ''rescheduleAppointmentFormUrl'', ''FastMCP'', ''get_session_logger'',
      ''SessionLoggerAdapter'', ''log_section_separator'', ''log_dict'', ''mcp'',
      ''pinecone'', ''index'', ''session_context'', ''extract_context_from_message'',
      ''get_bot_id_from_path'', ''get_session_context'', ''extract_url_from_message'',
      ''validate_url'', ''NoInputSchema'', ''book_appointment_tool'',
      ''cancel_appointment_tool'', ''reschedule_appointment_tool'', ''rag_retrieval_tool'']"

definition lookup_global :: "string \<Rightarrow> exn + unit" where
  "lookup_global name = (if name \<in> set module_globals then Inr () else Inl (NameError name))"

section \<open>The session logger registry\<close>

text \<open>
  The environment of a call: the configuration values imported from \<open>config\<close> (which
  is not part of the sources), the clock, and the answers of the file system and of the
  vector index. A file-system operation answers \<open>Some text\<close> when it raises.
  A path is kept as the list of its components. \<open>search_records\<close> stands for the call
  of the index and the reading of the hits of its answer.
\<close>

record hit =
  hit_repr :: string
  hit_score :: "string option"

record env =
  FORM_URL_1 :: string
  FORM_URL_2 :: string
  cancelAppointmentFormUrl :: string
  rescheduleAppointmentFormUrl :: string
  time_ms :: int
  today :: string
  mkdir_error :: "string list \<Rightarrow> string option"
  open_error :: "string list \<Rightarrow> string option"
  search_records :: "string \<Rightarrow> string \<Rightarrow> exn + hit list"

text \<open>
  A logger of the \<open>logging\<close> module is an object shared by name: \<open>logging.getLogger\<close>
  returns the same object for the same name. A reference to a logger is its name, and
  \<open>logger_dict\<close> is the store of the logger objects.
\<close>

datatype handler = FileHandler "string list" nat | StreamHandler nat

fun handler_level :: "handler \<Rightarrow> nat" where
  "handler_level (FileHandler p l) = l"
| "handler_level (StreamHandler l) = l"

record logger_obj =
  lg_level :: nat
  lg_propagate :: bool
  lg_handlers :: "handler list"

record log_record =
  rec_handler :: handler
  rec_level :: nat
  rec_session_id :: "string option"
  rec_message :: string

text \<open>
  The state: \<open>session_loggers\<close> is the module dictionary of \<open>logging_config\<close>,
  \<open>session_context\<close> the context variable of \<open>server.py\<close> (\<open>None\<close> while it holds its
  default), \<open>emitted\<close> the records handed to the handlers and \<open>console\<close> the lines
  printed.
\<close>

record state =
  session_loggers :: "string \<rightharpoonup> string"
  logger_dict :: "string \<rightharpoonup> logger_obj"
  session_context :: "session_ctx option"
  emitted :: "log_record list"
  console :: "string list"

definition INFO :: nat where "INFO = 20"
definition WARNING :: nat where "WARNING = 30"
definition ERROR :: nat where "ERROR = 40"

definition base_log_dir :: string where
  "base_log_dir = ''C:'' @ [CHR 0x5C] @ ''logs'' @ [CHR 0x5C] @ ''Evaa agentic logs''"

definition getLogger :: "string \<Rightarrow> state \<Rightarrow> state" where
  "getLogger name st =
     (case logger_dict st name of
        Some lg \<Rightarrow> st
      | None \<Rightarrow> st\<lparr>logger_dict := (logger_dict st)
                  (name \<mapsto> \<lparr>lg_level = 0, lg_propagate = True, lg_handlers = []\<rparr>)\<rparr>)"

text \<open>
  The creation of a session logger: the directory is made, the logger of the session is
  fetched, reset and given a file handler and a console handler. The logger has been
  reset already when opening the file raises.
\<close>

definition create_session_logger ::
  "env \<Rightarrow> string \<Rightarrow> string \<Rightarrow> nat \<Rightarrow> state \<Rightarrow> (exn + string) \<times> state" where
  "create_session_logger env project_name sid log_level st =
     (let project_dir = [base_log_dir, project_name] in
      case mkdir_error env project_dir of
        Some m \<Rightarrow> (Inl (LibraryError m), st)
      | None \<Rightarrow>
         (let log_filename = today env @ ''_SESSION-'' @ sid @ ''.log'';
              log_path = project_dir @ [log_filename];
              logger_name = project_name @ ''.'' @ sid;
              st1 = getLogger logger_name st;
              st2 = st1\<lparr>logger_dict := (logger_dict st1)
                      (logger_name \<mapsto> \<lparr>lg_level = log_level, lg_propagate = False,
                                        lg_handlers = []\<rparr>)\<rparr>
          in case open_error env log_path of
               Some m \<Rightarrow> (Inl (LibraryError m), st2)
             | None \<Rightarrow>
                 (Inr logger_name,
                  st2\<lparr>logger_dict := (logger_dict st2)
                    (logger_name \<mapsto> \<lparr>lg_level = log_level, lg_propagate = False,
                       lg_handlers = [FileHandler log_path log_level,
                                      StreamHandler log_level]\<rparr>)\<rparr>)))"

definition get_session_logger ::
  "env \<Rightarrow> string \<Rightarrow> string option \<Rightarrow> nat \<Rightarrow> state \<Rightarrow> (exn + string) \<times> state" where
  "get_session_logger env project_name session_id log_level st =
     (let sid = (if falsy session_id then ''NO_SESSION'' else the session_id);
          logger_key = project_name @ ''_'' @ sid
      in case session_loggers st logger_key of
           Some logger \<Rightarrow> (Inr logger, st)
         | None \<Rightarrow>
            (case create_session_logger env project_name sid log_level st of
               (Inl e, st1) \<Rightarrow> (Inl e, st1)
             | (Inr logger, st1) \<Rightarrow>
                 (Inr logger,
                  st1\<lparr>session_loggers := (session_loggers st1)(logger_key \<mapsto> logger)\<rparr>)))"

text \<open>
  The adapter: a logger and the session id put into every record. A record of a
  level the logger accepts goes to each handler of the logger that accepts it. The
  pictograph that starts most messages of the source is outside the code points of the
  model and is left out of the text of the record.
\<close>

record adapter =
  ad_logger :: string
  ad_session_id :: "string option"

definition SessionLoggerAdapter :: "string \<Rightarrow> string option \<Rightarrow> adapter" where
  "SessionLoggerAdapter logger sid = \<lparr>ad_logger = logger, ad_session_id = sid\<rparr>"

definition log_at :: "nat \<Rightarrow> adapter \<Rightarrow> string \<Rightarrow> state \<Rightarrow> state" where
  "log_at lvl a msg st =
     (case logger_dict st (ad_logger a) of
        None \<Rightarrow> st
      | Some lg \<Rightarrow>
          if lvl < lg_level lg then st
          else st\<lparr>emitted := emitted st @
                 map (\<lambda>h. \<lparr>rec_handler = h, rec_level = lvl,
                           rec_session_id = ad_session_id a, rec_message = msg\<rparr>)
                   (filter (\<lambda>h. handler_level h \<le> lvl) (lg_handlers lg))\<rparr>)"

definition upper_char :: "char \<Rightarrow> char" where
  "upper_char c =
     (let n = (of_char c :: nat) in
      if 97 \<le> n \<and> n \<le> 122 then char_of (n - 32) else c)"

definition log_section_separator :: "adapter \<Rightarrow> string \<Rightarrow> state \<Rightarrow> state" where
  "log_section_separator logger title st =
     (let separator = replicate 100 (CHR ''='') in
      if title \<noteq> [] then
        log_at INFO logger separator
          (log_at INFO logger (''  '' @ map upper_char title)
             (log_at INFO logger separator st))
      else log_at INFO logger separator st)"

section \<open>The tool handlers\<close>

text \<open>
  \<open>get_session_context\<close>: the context is extracted, the bot id is taken from the path
  when no bot id was given, the context is stored in the context variable, and then the
  global name \<open>logger\<close> is read. The two logging calls through that name have no model
  beyond the reading of the name.
\<close>

definition get_session_context :: "string \<Rightarrow> state \<Rightarrow> (exn + session_ctx) \<times> state" where
  "get_session_context query st =
     (let context0 = extract_context_from_message query;
          context1 =
            (if falsy (ctx_bot_id context0) \<and> \<not> falsy (ctx_path context0)
             then context0\<lparr>ctx_bot_id := Some (get_bot_id_from_path (the (ctx_path context0)))\<rparr>
             else context0);
          st1 = st\<lparr>session_context := Some context1\<rparr>
      in case lookup_global ''logger'' of
           Inl e \<Rightarrow> (Inl e, st1)
         | Inr u \<Rightarrow> (Inr context1, st1))"

text \<open>The test of the handlers for the enhanced message format.\<close>

definition has_context_tag :: "string \<Rightarrow> bool" where
  "has_context_tag query =
     (query \<noteq> [] \<and>
      (py_in ''[SESSION_ID:'' query \<or> py_in ''[PATH:'' query \<or> py_in ''[BOT_ID:'' query))"

text \<open>
  The dict given to \<open>json.dumps\<close>: the failure replies have no \<open>form_url\<close> key. A tool
  returns such a dict, or a plain string.
\<close>

record reply =
  reply_text :: string
  form_url :: "string option"
  success :: bool
  reply_session_id :: "string option"

datatype tool_result = Json reply | Text string

text \<open>
  The handler of an exception in a tool: the emergency logger is asked for and the
  error lines are logged through it; when that raises, one line is printed instead.
  The session id is a parameter of every tool, so it is always among the local names.
\<close>

definition emergency_log ::
  "env \<Rightarrow> string option \<Rightarrow> string list \<Rightarrow> string \<Rightarrow> state \<Rightarrow> state" where
  "emergency_log env session_id lines critical st =
     (case get_session_logger env ''MCP Server'' session_id INFO st of
        (Inl e, st1) \<Rightarrow> st1\<lparr>console := console st1 @ [critical]\<rparr>
      | (Inr lg, st1) \<Rightarrow>
          fold (\<lambda>l s. log_at ERROR (SessionLoggerAdapter lg session_id) l s) lines st1)"

text \<open>
  The query parameters put after a form URL.
\<close>

definition with_session :: "env \<Rightarrow> string \<Rightarrow> string option \<Rightarrow> string" where
  "with_session env url session_id =
     (let separator = (if CHR ''?'' \<in> set url then ''&'' else ''?'')
      in url @ separator @ ''session_id='' @ py_str session_id @ ''&ts='' @ str_int (time_ms env))"

text \<open>
  The body of the \<open>try\<close> of \<open>book_appointment_tool\<close>. An exception comes with the
  value the local \<open>session_id\<close> has when it is raised.
\<close>

definition book_appointment_try ::
  "env \<Rightarrow> string \<Rightarrow> string option \<Rightarrow> string option \<Rightarrow> state \<Rightarrow>
   ((exn \<times> string option) + reply) \<times> state" where
  "book_appointment_try env query session_id bot_id st =
     (case (if has_context_tag query then
              (case get_session_context query st of
                 (Inl e, st1) \<Rightarrow> (Inl (e, session_id), st1)
               | (Inr context, st1) \<Rightarrow>
                   (Inr (py_or (ctx_bot_id context) bot_id,
                         py_or (ctx_session_id context) session_id), st1))
            else (Inr (bot_id, session_id), st)) of
        (Inl x, st1) \<Rightarrow> (Inl x, st1)
      | (Inr (bot_id1, session_id1), st1) \<Rightarrow>
          (let session_id2 = (if falsy session_id1 then Some ''fallback-session-id''
                              else session_id1)
           in case get_session_logger env ''MCP Server'' session_id2 INFO st1 of
                (Inl e, st2) \<Rightarrow> (Inl (e, session_id2), st2)
              | (Inr lg, st2) \<Rightarrow>
                  (let logger = SessionLoggerAdapter lg session_id2;
                       st3 = log_section_separator logger ''BOOK APPOINTMENT TOOL CALLED'' st2;
                       st4 = log_at INFO logger
                               (''Tool invoked with query: '' @ take 100 query @ ''...'') st3;
                       st5 = log_at INFO logger
                               (''Bot ID: '' @ py_str bot_id1 @ '' | Session: '' @
                                py_str session_id2) st4;
                       FORM_URL = (if bot_id1 = Some ''fp01'' then FORM_URL_2 env
                                   else FORM_URL_1 env);
                       st6 = log_at INFO logger
                               (''Selected form URL for bot '' @ [CHR 0x27] @ py_str bot_id1 @
                                [CHR 0x27] @ '': '' @ FORM_URL) st5;
                       form_url_with_session = with_session env FORM_URL session_id2;
                       st7 = log_at INFO logger
                               (''Generated form URL with session: '' @ form_url_with_session)
                               st6;
                       st8 = log_at INFO logger ''Returning form URL to agent...'' st7
                   in (Inr \<lparr>reply_text = ''I'm opening the appointment booking form for you. Please fill it out to book your appointment.'',
                             form_url = Some form_url_with_session,
                             success = True,
                             reply_session_id = session_id2\<rparr>, st8))))"

definition book_appointment_tool ::
  "env \<Rightarrow> string \<Rightarrow> string option \<Rightarrow> string option \<Rightarrow> state \<Rightarrow>
   (exn + tool_result) \<times> state" where
  "book_appointment_tool env query session_id bot_id st =
     (case book_appointment_try env query session_id bot_id st of
        (Inr r, st1) \<Rightarrow> (Inr (Json r), st1)
      | (Inl (e, sid), st1) \<Rightarrow>
          (Inr (Json \<lparr>reply_text = ''Sorry, I couldn't open the booking form at this moment.'',
                      form_url = None,
                      success = False,
                      reply_session_id = sid\<rparr>),
           emergency_log env sid [''Error in book_appointment_tool: '' @ exn_str e]
             (''CRITICAL ERROR in book_appointment_tool: '' @ exn_str e) st1))"

text \<open>
  \<open>cancel_appointment_tool\<close> and \<open>reschedule_appointment_tool\<close> resolve the session
  id and fetch the logger first, and extract the context without
  \<open>get_session_context\<close>. Their parameter \<open>path\<close> is never read.
\<close>

definition cancel_appointment_tool_try ::
  "env \<Rightarrow> string \<Rightarrow> string option \<Rightarrow> string option \<Rightarrow> string option \<Rightarrow> state \<Rightarrow>
   ((exn \<times> string option) + reply) \<times> state" where
  "cancel_appointment_tool_try env query session_id path bot_id st =
     (let session_id1 = (if falsy session_id then Some ''fallback-session-id'' else session_id)
      in case get_session_logger env ''MCP Server'' session_id1 INFO st of
           (Inl e, st1) \<Rightarrow> (Inl (e, session_id1), st1)
         | (Inr lg, st1) \<Rightarrow>
             (let logger = SessionLoggerAdapter lg session_id1;
                  st2 = log_section_separator logger ''CANCEL APPOINTMENT TOOL CALLED'' st1;
                  (bot_id1, session_id2) =
                    (if has_context_tag query then
                       (let context = extract_context_from_message query
                        in (py_or (ctx_bot_id context) bot_id,
                            py_or (ctx_session_id context) session_id1))
                     else (bot_id, session_id1));
                  st3 = log_at INFO logger
                          (''Tool invoked | Bot ID: '' @ py_str bot_id1 @ '' | Session: '' @
                           py_str session_id2) st2;
                  st4 = log_at INFO logger (''Query: '' @ take 100 query @ ''...'') st3;
                  form_url_with_session = with_session env (cancelAppointmentFormUrl env) session_id2;
                  st5 = log_at INFO logger (''Generated form URL: '' @ form_url_with_session) st4;
                  st6 = log_at INFO logger ''Returning form URL to agent...'' st5
              in (Inr \<lparr>reply_text = ''I'm opening the appointment cancellation form for you. Please fill it out to cancel your appointment.'',
                        form_url = Some form_url_with_session,
                        success = True,
                        reply_session_id = session_id2\<rparr>, st6)))"

definition cancel_appointment_tool ::
  "env \<Rightarrow> string \<Rightarrow> string option \<Rightarrow> string option \<Rightarrow> string option \<Rightarrow> state \<Rightarrow>
   (exn + tool_result) \<times> state" where
  "cancel_appointment_tool env query session_id path bot_id st =
     (case cancel_appointment_tool_try env query session_id path bot_id st of
        (Inr r, st1) \<Rightarrow> (Inr (Json r), st1)
      | (Inl (e, sid), st1) \<Rightarrow>
          (Inr (Json \<lparr>reply_text = ''Sorry, I couldn't open the appointment cancellation form at this moment.'',
                      form_url = None,
                      success = False,
                      reply_session_id = sid\<rparr>),
           emergency_log env sid [''Error in cancel_appointment_tool: '' @ exn_str e]
             (''CRITICAL ERROR in cancel_appointment_tool: '' @ exn_str e) st1))"

definition reschedule_appointment_tool_try ::
  "env \<Rightarrow> string \<Rightarrow> string option \<Rightarrow> string option \<Rightarrow> string option \<Rightarrow> state \<Rightarrow>
   ((exn \<times> string option) + reply) \<times> state" where
  "reschedule_appointment_tool_try env query session_id path bot_id st =
     (let session_id1 = (if falsy session_id then Some ''fallback-session-id'' else session_id)
      in case get_session_logger env ''MCP Server'' session_id1 INFO st of
           (Inl e, st1) \<Rightarrow> (Inl (e, session_id1), st1)
         | (Inr lg, st1) \<Rightarrow>
             (let logger = SessionLoggerAdapter lg session_id1;
                  st2 = log_section_separator logger ''RESCHEDULE APPOINTMENT TOOL CALLED'' st1;
                  (bot_id1, session_id2) =
                    (if has_context_tag query then
                       (let context = extract_context_from_message query
                        in (py_or (ctx_bot_id context) bot_id,
                            py_or (ctx_session_id context) session_id1))
                     else (bot_id, session_id1));
                  st3 = log_at INFO logger
                          (''Tool invoked | Bot ID: '' @ py_str bot_id1 @ '' | Session: '' @
                           py_str session_id2) st2;
                  st4 = log_at INFO logger (''Query: '' @ take 100 query @ ''...'') st3;
                  form_url_with_session = with_session env (rescheduleAppointmentFormUrl env) session_id2;
                  st5 = log_at INFO logger (''Generated form URL: '' @ form_url_with_session) st4;
                  st6 = log_at INFO logger ''Returning form URL to agent...'' st5
              in (Inr \<lparr>reply_text = ''I'm opening the appointment rescheduling form for you. Please fill it out to reschedule your appointment.'',
                        form_url = Some form_url_with_session,
                        success = True,
                        reply_session_id = session_id2\<rparr>, st6)))"

definition reschedule_appointment_tool ::
  "env \<Rightarrow> string \<Rightarrow> string option \<Rightarrow> string option \<Rightarrow> string option \<Rightarrow> state \<Rightarrow>
   (exn + tool_result) \<times> state" where
  "reschedule_appointment_tool env query session_id path bot_id st =
     (case reschedule_appointment_tool_try env query session_id path bot_id st of
        (Inr r, st1) \<Rightarrow> (Inr (Json r), st1)
      | (Inl (e, sid), st1) \<Rightarrow>
          (Inr (Json \<lparr>reply_text = ''Sorry, I couldn't open the appointment rescheduling form at this moment.'',
                      form_url = None,
                      success = False,
                      reply_session_id = sid\<rparr>),
           emergency_log env sid [''Error in reschedule_appointment_tool: '' @ exn_str e]
             (''CRITICAL ERROR in reschedule_appointment_tool: '' @ exn_str e) st1))"

text \<open>
  \<open>rag_retrieval_tool\<close> returns plain strings. An exception in its \<open>try\<close> comes with
  the values of the locals \<open>session_id\<close> and \<open>query\<close>. The list of hits is printed as
  Python prints a list.
\<close>

fun join_with :: "string \<Rightarrow> string list \<Rightarrow> string" where
  "join_with sep [] = []"
| "join_with sep [x] = x"
| "join_with sep (x # y # ys) = x @ sep @ join_with sep (y # ys)"

definition hits_str :: "hit list \<Rightarrow> string" where
  "hits_str results = ''['' @ join_with '', '' (map hit_repr results) @ '']''"

definition rag_retrieval_tool_try ::
  "env \<Rightarrow> string \<Rightarrow> string option \<Rightarrow> string option \<Rightarrow> string option \<Rightarrow> state \<Rightarrow>
   ((exn \<times> string option \<times> string) + string) \<times> state" where
  "rag_retrieval_tool_try env query session_id path bot_id st =
     (case (if has_context_tag query then
              (case get_session_context query st of
                 (Inl e, st1) \<Rightarrow> (Inl (e, session_id, query), st1)
               | (Inr context, st1) \<Rightarrow>
                   (Inr (py_or (ctx_session_id context) session_id,
                         py_or (ctx_path context) path,
                         py_or (ctx_bot_id context) bot_id,
                         ctx_clean_message context), st1))
            else (Inr (session_id, path, bot_id, query), st)) of
        (Inl x, st1) \<Rightarrow> (Inl x, st1)
      | (Inr (session_id1, path1, bot_id1, query1), st1) \<Rightarrow>
          (let session_id2 = (if falsy session_id1 then Some ''fallback-session-id''
                              else session_id1)
           in case get_session_logger env ''MCP Server'' session_id2 INFO st1 of
                (Inl e, st2) \<Rightarrow> (Inl (e, session_id2, query1), st2)
              | (Inr lg, st2) \<Rightarrow>
                  (let logger = SessionLoggerAdapter lg session_id2;
                       st3 = log_section_separator logger ''RAG RETRIEVAL TOOL CALLED'' st2;
                       st4 = log_at INFO logger (''Query: '' @ query1) st3;
                       st5 = log_at INFO logger
                               (''Path: '' @ py_str path1 @ '' | Bot ID: '' @ py_str bot_id1) st4;
                       (bot_id2, st6) =
                         (if falsy bot_id1 \<and> \<not> falsy path1 then
                            (let b = get_bot_id_from_path (the path1)
                             in (Some b, log_at INFO logger
                                           (''Extracted bot_id from path: '' @ b) st5))
                          else (bot_id1, st5));
                       namespace = (if \<not> falsy bot_id2 then the bot_id2 else ''hr4s'');
                       st7 = log_at INFO logger (''Using Pinecone namespace: '' @ namespace) st6;
                       st8 = log_at INFO logger
                               ''Searching Pinecone with top_k=7, rerank top_n=5...'' st7
                   in case search_records env namespace query1 of
                        Inl e \<Rightarrow> (Inl (e, session_id2, query1), st8)
                      | Inr results \<Rightarrow>
                          if results = [] then
                            (Inr ''Sorry, I couldn't find any relevant information.'',
                             log_at WARNING logger
                               (''No results found in namespace '' @ [CHR 0x27] @ namespace @
                                [CHR 0x27]) st8)
                          else
                            (let st9 = log_at INFO logger
                                         (''Found '' @ str_int (int (length results)) @
                                          '' relevant results'') st8;
                                 st10 = log_at INFO logger
                                          (''Top result score: '' @
                                           (case hit_score (hd results) of
                                              Some sc \<Rightarrow> sc | None \<Rightarrow> ''N/A'')) st9;
                                 st11 = log_at INFO logger ''Returning results to agent...'' st10
                             in (Inr (''Here's what I found:'' @ [CHR 0x0A, CHR 0x0A] @
                                      hits_str results), st11)))))"

definition rag_retrieval_tool ::
  "env \<Rightarrow> string \<Rightarrow> string option \<Rightarrow> string option \<Rightarrow> string option \<Rightarrow> state \<Rightarrow>
   (exn + tool_result) \<times> state" where
  "rag_retrieval_tool env query session_id path bot_id st =
     (case rag_retrieval_tool_try env query session_id path bot_id st of
        (Inr r, st1) \<Rightarrow> (Inr (Text r), st1)
      | (Inl (e, sid, q), st1) \<Rightarrow>
          (Inr (Text (''Error retrieving context from Pinecone: '' @ exn_str e)),
           emergency_log env sid
             [''Error in RAG retrieval: '' @ exn_str e, ''Failed query: '' @ take 100 q]
             (''CRITICAL ERROR in rag_retrieval_tool: '' @ exn_str e) st1))"

section \<open>URL validation\<close>

text \<open>
  \<open>validate_url\<close> reads the scheme and the network location of the parsed URL. The
  parser \<open>urlparse\<close> belongs to the Python library, not to the sources: it is a parameter
  of \<open>validate_url\<close>, answering the two fields or the exception it raises. \<open>urlparse\<close>
  below follows the library for these two fields: leading control characters and spaces
  are dropped, tabs and line breaks are removed, a scheme is a leading run of scheme
  characters that starts with an ASCII letter and ends before the first colon, and the
  network location is what follows two slashes up to the next slash, question mark or
  hash. It raises on an unmatched square bracket in the network location; the check of
  a bracketed host that later versions of the library make is not part of it.
\<close>

record parsed =
  scheme :: string
  netloc :: string

definition ascii_alpha :: "char \<Rightarrow> bool" where
  "ascii_alpha c =
     (let n = (of_char c :: nat) in (65 \<le> n \<and> n \<le> 90) \<or> (97 \<le> n \<and> n \<le> 122))"

definition ascii_digit :: "char \<Rightarrow> bool" where
  "ascii_digit c = (let n = (of_char c :: nat) in 48 \<le> n \<and> n \<le> 57)"

definition scheme_char :: "char \<Rightarrow> bool" where
  "scheme_char c = (ascii_alpha c \<or> ascii_digit c \<or> c \<in> set ''+-.'')"

definition urlparse :: "string \<Rightarrow> exn + parsed" where
  "urlparse url0 =
     (let url = filter (\<lambda>c. of_char c \<notin> {9, 10, 13 :: nat})
                  (dropWhile (\<lambda>c. (of_char c :: nat) \<le> 32) url0);
          pre = takeWhile (\<lambda>c. c \<noteq> CHR '':'') url;
          (sch, rest) =
            (if pre \<noteq> [] \<and> length pre < length url \<and> ascii_alpha (hd pre) \<and>
                list_all scheme_char pre
             then (py_lower pre, drop (Suc (length pre)) url)
             else ([], url))
      in if take 2 rest = ''//'' then
           (let loc = takeWhile (\<lambda>c. c \<notin> set ''/?#'') (drop 2 rest)
            in if (CHR ''['' \<in> set loc \<and> CHR '']'' \<notin> set loc) \<or>
                  (CHR '']'' \<in> set loc \<and> CHR ''['' \<notin> set loc)
               then Inl (LibraryError ''Invalid IPv6 URL'')
               else Inr \<lparr>scheme = sch, netloc = loc\<rparr>)
         else Inr \<lparr>scheme = sch, netloc = []\<rparr>)"

text \<open>
  The block list of \<open>validate_url\<close>, in the order of the source; every dot of the first
  six patterns is an escaped, literal dot. The classes hold digits only, so the flag
  for ignoring case does not change them.
\<close>

definition dangerous_patterns :: "rx list" where
  "dangerous_patterns =
     [Lit ''localhost'',
      Lit ''127.0.0.1'',
      Lit ''0.0.0.0'',
      Lit ''192.168.'',
      Lit ''10.'',
      Seq (Lit ''172.'')
        (Seq (Cap (Alt (Seq (Lit ''1'') (Cls (\<lambda>c. c \<in> set ''6789'')))
                    (Alt (Seq (Lit ''2'') (Cls ascii_digit))
                         (Seq (Lit ''3'') (Cls (\<lambda>c. c \<in> set ''01''))))))
             (Lit ''.'')),
      Lit ''file://'',
      Lit ''javascript:'',
      Lit ''data:'']"

record verdict =
  valid :: bool
  reason :: string

definition dev_exception :: "string \<Rightarrow> bool" where
  "dev_exception url =
     (py_in ''localhost'' url \<and> (py_in ''3001'' url \<or> py_in ''5174'' url))"

text \<open>The loop over the block list.\<close>

fun check_patterns :: "string \<Rightarrow> rx list \<Rightarrow> verdict" where
  "check_patterns url [] = \<lparr>valid = True, reason = ''URL is valid''\<rparr>"
| "check_patterns url (pattern # rest) =
     (if re_search True pattern url \<noteq> None then
        (if dev_exception url then check_patterns url rest
         else \<lparr>valid = False, reason = ''URL not allowed for security reasons''\<rparr>)
      else check_patterns url rest)"

definition validate_url :: "(string \<Rightarrow> exn + parsed) \<Rightarrow> string \<Rightarrow> verdict" where
  "validate_url parse url =
     (if url = [] then \<lparr>valid = False, reason = ''No URL provided''\<rparr>
      else case parse url of
             Inl e \<Rightarrow> \<lparr>valid = False, reason = ''URL validation error: '' @ exn_str e\<rparr>
           | Inr p \<Rightarrow>
               if scheme p \<notin> set [''http'', ''https''] then
                 \<lparr>valid = False, reason = ''Only HTTP and HTTPS protocols are allowed''\<rparr>
               else if netloc p = [] then
                 \<lparr>valid = False, reason = ''Invalid URL format - no domain found''\<rparr>
               else if length (netloc p) < 3 \<or> CHR ''.'' \<notin> set (netloc p) then
                 \<lparr>valid = False, reason = ''Invalid domain format''\<rparr>
               else check_patterns url dangerous_patterns)"

section \<open>Notions used by the properties\<close>

text \<open>
  The last non-empty segment of a path split on the slash, and the empty string when
  there is none.
\<close>

definition last_nonempty :: "string list \<Rightarrow> string" where
  "last_nonempty segs =
     (case filter (\<lambda>seg. seg \<noteq> []) segs of
        [] \<Rightarrow> []
      | seg # rest \<Rightarrow> last (seg # rest))"

definition last_nonempty_segment :: "string \<Rightarrow> string" where
  "last_nonempty_segment p = last_nonempty (py_split (CHR ''/'') p)"

text \<open>
  Tags read directly from the text, without regular expressions. A tag with a value
  starts with the opening bracket, the name and a colon, and goes on with a non-empty
  run of characters other than the closing bracket, which the closing bracket follows.
  \<open>first_tag_value\<close> is the value of the leftmost such tag.
\<close>

definition tag_value_at :: "string \<Rightarrow> string \<Rightarrow> string option" where
  "tag_value_at name s =
     (if startswith s (''['' @ name @ '':'') then
        (let r = drop (length name + 2) s;
             v = takeWhile (\<lambda>c. c \<noteq> CHR '']'') r
         in if v \<noteq> [] \<and> length v < length r then Some v else None)
      else None)"

fun first_tag_value :: "string \<Rightarrow> string \<Rightarrow> string option" where
  "first_tag_value name [] = None"
| "first_tag_value name (c # cs) =
     (case tag_value_at name (c # cs) of
        Some v \<Rightarrow> Some v
      | None \<Rightarrow> first_tag_value name cs)"

text \<open>
  \<open>tag_end name s\<close> is the text after a tag (its value may be empty) that starts \<open>s\<close>
  and after the white space that follows the tag. \<open>delete_tags\<close> deletes, from left to
  right, every tag and the white space after it.
\<close>

definition tag_end :: "string \<Rightarrow> string \<Rightarrow> string option" where
  "tag_end name s =
     (if startswith s (''['' @ name @ '':'') then
        (case dropWhile (\<lambda>c. c \<noteq> CHR '']'') (drop (length name + 2) s) of
           [] \<Rightarrow> None
         | b # r \<Rightarrow> Some (dropWhile is_space r))
      else None)"

function delete_tags :: "string \<Rightarrow> string \<Rightarrow> string" where
  "delete_tags name s =
     (case tag_end name s of
        Some r \<Rightarrow> if length r < length s then delete_tags name r else s
      | None \<Rightarrow> (case s of [] \<Rightarrow> [] | c # cs \<Rightarrow> c # delete_tags name cs))"
  by pat_completeness auto
termination
  by (relation "measure (\<lambda>(name, s). length s)") auto

declare delete_tags.simps [simp del]

text \<open>The first successful result along a list of candidates.\<close>

fun first_map :: "('a \<Rightarrow> 'b option) \<Rightarrow> 'a list \<Rightarrow> 'b option" where
  "first_map f [] = None"
| "first_map f (x # xs) = (case f x of Some y \<Rightarrow> Some y | None \<Rightarrow> first_map f xs)"

text \<open>
  A reading of the block list on the host alone: the host matches one of the first six
  patterns, or the URL embeds one of the three schemes.
\<close>

definition host_blocked :: "string \<Rightarrow> bool" where
  "host_blocked h = list_ex (\<lambda>p. re_search True p h \<noteq> None) (take 6 dangerous_patterns)"

definition embeds_scheme :: "string \<Rightarrow> bool" where
  "embeds_scheme url = list_ex (\<lambda>p. re_search True p url \<noteq> None) (drop 6 dangerous_patterns)"

definition security_verdict :: verdict where
  "security_verdict = \<lparr>valid = False, reason = ''URL not allowed for security reasons''\<rparr>"

text \<open>
  The session id a tool settles on when no tag is read: the parameter, or the fallback
  constant when the parameter is empty or \<open>None\<close>. \<open>tagged_session\<close> is the session id of
  the tools that extract the context themselves. \<open>rag_namespace\<close> is the namespace of
  the retrieval: the bot id, else the last segment of the path, else the default.
\<close>

definition session_or_fallback :: "string option \<Rightarrow> string option" where
  "session_or_fallback sid = (if falsy sid then Some ''fallback-session-id'' else sid)"

definition tagged_session :: "string \<Rightarrow> string option \<Rightarrow> string option" where
  "tagged_session q sid =
     (if has_context_tag q
      then py_or (ctx_session_id (extract_context_from_message q)) (session_or_fallback sid)
      else session_or_fallback sid)"

definition rag_namespace :: "string option \<Rightarrow> string option \<Rightarrow> string" where
  "rag_namespace p b =
     (if \<not> falsy b then the b
      else if \<not> falsy p \<and> get_bot_id_from_path (the p) \<noteq> [] then get_bot_id_from_path (the p)
      else ''hr4s'')"

section \<open>Sample environments and states\<close>

text \<open>
  An environment in which the file system and the index answer, one in which no
  directory can be made, one in which the index fails, and the state of a fresh process.
\<close>

definition sample_env :: env where
  "sample_env =
     \<lparr>FORM_URL_1 = ''https://forms.example/book'',
      FORM_URL_2 = ''https://forms.example/book2?src=fp'',
      cancelAppointmentFormUrl = ''https://forms.example/cancel'',
      rescheduleAppointmentFormUrl = ''https://forms.example/reschedule'',
      time_ms = 1730000000123,
      today = ''2025-11-03'',
      mkdir_error = (\<lambda>p. None),
      open_error = (\<lambda>p. None),
      search_records = (\<lambda>namespace q. Inr [])\<rparr>"

definition readonly_env :: env where
  "readonly_env = sample_env\<lparr>mkdir_error := (\<lambda>p. Some ''Permission denied'')\<rparr>"

definition offline_env :: env where
  "offline_env = sample_env\<lparr>search_records := (\<lambda>namespace q. Inl (LibraryError ''connection refused''))\<rparr>"

definition fresh_state :: state where
  "fresh_state =
     \<lparr>session_loggers = Map.empty, logger_dict = Map.empty, session_context = None,
      emitted = [], console = []\<rparr>"

section \<open>Paths and their segments\<close>

lemma py_split_nonempty: "py_split sep s \<noteq> []"
  by (induction s) (auto split: list.splits)

lemma py_split_snoc:
  "py_split sep (s @ [c]) =
     (if c = sep then py_split sep s @ [[]]
      else butlast (py_split sep s) @ [last (py_split sep s) @ [c]])"
proof (induction s)
  case Nil
  then show ?case by simp
next
  case (Cons a s)
  then show ?case
    using py_split_nonempty [of sep s]
    by (cases "py_split sep s") (auto split: list.splits)
qed

lemma last_py_split:
  "last (py_split sep s) = rev (takeWhile (\<lambda>c. c \<noteq> sep) (rev s))"
proof (induction s rule: rev_induct)
  case Nil
  then show ?case by simp
next
  case (snoc c s)
  then show ?case by (simp add: py_split_snoc)
qed

lemma last_nonempty_alt:
  "last_nonempty xs =
     (if filter (\<lambda>seg. seg \<noteq> []) xs = [] then []
      else last (filter (\<lambda>seg. seg \<noteq> []) xs))"
  by (simp add: last_nonempty_def split: list.splits)

lemma last_nonempty_split:
  "last_nonempty (py_split sep s) =
     rev (takeWhile (\<lambda>c. c \<noteq> sep) (dropWhile (\<lambda>c. c = sep) (rev s)))"
proof (induction s rule: rev_induct)
  case Nil
  then show ?case by (simp add: last_nonempty_def)
next
  case (snoc c s)
  show ?case
  proof (cases "c = sep")
    case True
    then have "last_nonempty (py_split sep (s @ [c])) = last_nonempty (py_split sep s)"
      by (simp add: py_split_snoc last_nonempty_def)
    then show ?thesis using snoc True by simp
  next
    case False
    have "filter (\<lambda>seg. seg \<noteq> []) (py_split sep (s @ [c])) =
          filter (\<lambda>seg. seg \<noteq> []) (butlast (py_split sep s)) @ [last (py_split sep s) @ [c]]"
      using False by (simp add: py_split_snoc)
    then have "last_nonempty (py_split sep (s @ [c])) = last (py_split sep s) @ [c]"
      by (simp add: last_nonempty_alt)
    then show ?thesis using False by (simp add: last_py_split)
  qed
qed

lemma takeWhile_stop:
  "P y \<Longrightarrow> takeWhile (\<lambda>c. \<not> P c) (zs @ y # ys) = takeWhile (\<lambda>c. \<not> P c) zs"
  by (induction zs) auto

lemma takeWhile_dropWhile_tail:
  assumes "\<forall>y\<in>set ys. P y"
  shows "takeWhile (\<lambda>c. \<not> P c) (dropWhile P (xs @ ys)) =
         takeWhile (\<lambda>c. \<not> P c) (dropWhile P xs)"
proof (cases "\<forall>x\<in>set xs. P x")
  case True
  then have "\<forall>x\<in>set (xs @ ys). P x" using assms by auto
  then have "dropWhile P (xs @ ys) = []" unfolding dropWhile_eq_Nil_conv .
  moreover have "dropWhile P xs = []" using True unfolding dropWhile_eq_Nil_conv .
  ultimately show ?thesis by (simp only:)
next
  case False
  then have d: "dropWhile P (xs @ ys) = dropWhile P xs @ ys"
    by (metis dropWhile_append1 dropWhile_append2)
  show ?thesis
  proof (cases ys)
    case Nil
    then show ?thesis by simp
  next
    case (Cons y ys')
    then have "P y" using assms by simp
    then show ?thesis unfolding d unfolding Cons by (rule takeWhile_stop)
  qed
qed

lemma get_bot_id_from_path_last:
  "get_bot_id_from_path p = last_nonempty_segment p"
proof -
  let ?P = "\<lambda>c. c = CHR ''/''"
  have a: "(\<lambda>c. c \<in> set ''/'') = ?P" by auto
  have "rev p = rev (dropWhile ?P p) @ rev (takeWhile ?P p)"
    by (metis rev_append takeWhile_dropWhile_id)
  moreover have "\<forall>y\<in>set (rev (takeWhile ?P p)). ?P y"
    by (auto dest: set_takeWhileD)
  ultimately have "takeWhile (\<lambda>c. \<not> ?P c) (dropWhile ?P (rev p)) =
      takeWhile (\<lambda>c. \<not> ?P c) (dropWhile ?P (rev (dropWhile ?P p)))"
    using takeWhile_dropWhile_tail [of "rev (takeWhile ?P p)" ?P "rev (dropWhile ?P p)"]
    by simp
  then show ?thesis
    using last_nonempty_split [of "CHR ''/''" p]
    by (cases p) (simp_all add: get_bot_id_from_path_def last_nonempty_segment_def
        last_nonempty_def py_strip_chars_def strip_where_def a last_py_split)
qed

section \<open>The unbound name of the context resolution\<close>

lemma logger_unbound: "lookup_global ''logger'' = Inl (NameError ''logger'')"
  by (simp add: lookup_global_def module_globals_def)

lemma get_session_context_eq:
  "get_session_context query st =
     (Inl (NameError ''logger''),
      st\<lparr>session_context := Some
        (let c = extract_context_from_message query in
          if falsy (ctx_bot_id c) \<and> \<not> falsy (ctx_path c)
          then c\<lparr>ctx_bot_id := Some (get_bot_id_from_path (the (ctx_path c)))\<rparr> else c)\<rparr>)"
  by (simp add: get_session_context_def Let_def logger_unbound)

lemma py_in_nonempty: "py_in sub s \<Longrightarrow> sub \<noteq> [] \<Longrightarrow> s \<noteq> []"
  by (cases s) auto

lemma has_context_tagI:
  "py_in ''[SESSION_ID:'' q \<or> py_in ''[PATH:'' q \<or> py_in ''[BOT_ID:'' q \<Longrightarrow> has_context_tag q"
  unfolding has_context_tag_def using py_in_nonempty by fastforce

lemma book_appointment_tool_tagged:
  "has_context_tag q \<Longrightarrow>
   fst (book_appointment_tool env q sid bid st) =
     Inr (Json \<lparr>reply_text = ''Sorry, I couldn't open the booking form at this moment.'',
                form_url = None, success = False, reply_session_id = sid\<rparr>)"
  by (simp add: book_appointment_tool_def book_appointment_try_def get_session_context_eq)

lemma rag_retrieval_tool_tagged:
  "has_context_tag q \<Longrightarrow>
   fst (rag_retrieval_tool env q sid p bid st) =
     Inr (Text (''Error retrieving context from Pinecone: name 'logger' is not defined''))"
  by (simp add: rag_retrieval_tool_def rag_retrieval_tool_try_def get_session_context_eq
      exn_str_def)

text \<open>
  C8. For every path, \<open>get_bot_id_from_path\<close> returns the last non-empty segment of the
  path split on the slash, and the empty string when the path has no segment; it
  returns \<open>QApixW\<close> on \<open>e1/burneteyecarepinecone/QApixW\<close> and the empty string on the
  empty path; and when the message gives a path and no bot id, the context that
  \<open>get_session_context\<close> stores has the bot id derived from the path in this way.
\<close>

theorem get_bot_id_from_path_last_segment:
  "get_bot_id_from_path p = last_nonempty_segment p \<and>
   get_bot_id_from_path ''e1/burneteyecarepinecone/QApixW'' = ''QApixW'' \<and>
   get_bot_id_from_path [] = [] \<and>
   (falsy (ctx_bot_id (extract_context_from_message q)) \<and>
    \<not> falsy (ctx_path (extract_context_from_message q)) \<longrightarrow>
      session_context (snd (get_session_context q st)) =
        Some ((extract_context_from_message q)
               \<lparr>ctx_bot_id :=
                  Some (last_nonempty_segment (the (ctx_path (extract_context_from_message q))))\<rparr>))"
proof -
  have "get_bot_id_from_path ''e1/burneteyecarepinecone/QApixW'' = ''QApixW''"
    by code_simp
  moreover have "get_bot_id_from_path [] = []"
    by (simp add: get_bot_id_from_path_def)
  ultimately show ?thesis
    by (simp add: get_session_context_eq get_bot_id_from_path_last Let_def)
qed

theorem get_bot_id_from_path_last_segment_witness:
  "falsy (ctx_bot_id (extract_context_from_message ''[PATH: e1/x/QApixW] hi'')) \<and>
   \<not> falsy (ctx_path (extract_context_from_message ''[PATH: e1/x/QApixW] hi'')) \<and>
   get_bot_id_from_path ''e1/x/QApixW'' = last_nonempty_segment ''e1/x/QApixW'' \<and>
   session_context (snd (get_session_context ''[PATH: e1/x/QApixW] hi'' fresh_state)) =
     Some \<lparr>ctx_session_id = None, ctx_path = Some ''e1/x/QApixW'',
           ctx_bot_id = Some ''QApixW'', ctx_clean_message = ''hi''\<rparr>"
proof -
  have e: "extract_context_from_message ''[PATH: e1/x/QApixW] hi'' =
      \<lparr>ctx_session_id = None, ctx_path = Some ''e1/x/QApixW'', ctx_bot_id = None,
       ctx_clean_message = ''hi''\<rparr>"
    by code_simp
  have l: "last_nonempty_segment ''e1/x/QApixW'' = ''QApixW''"
    by code_simp
  show ?thesis
    using get_bot_id_from_path_last_segment
      [of "''e1/x/QApixW''" "''[PATH: e1/x/QApixW] hi''" fresh_state]
    by (simp add: e l falsy_def)
qed

text \<open>
  C2. Every call of \<open>get_session_context\<close> raises the \<open>NameError\<close> of the name
  \<open>logger\<close>, which is not bound in the module; so for every query that contains one of
  the three tag markers, \<open>book_appointment_tool\<close> and \<open>rag_retrieval_tool\<close> take their
  exception branch and return their failure reply.
\<close>

theorem get_session_context_always_raises:
  "fst (get_session_context query st) = Inl (NameError ''logger'') \<and>
   (py_in ''[SESSION_ID:'' query \<or> py_in ''[PATH:'' query \<or> py_in ''[BOT_ID:'' query \<longrightarrow>
      fst (book_appointment_try env query session_id bot_id st) =
        Inl (NameError ''logger'', session_id) \<and>
      fst (book_appointment_tool env query session_id bot_id st) =
        Inr (Json \<lparr>reply_text = ''Sorry, I couldn't open the booking form at this moment.'',
                   form_url = None, success = False, reply_session_id = session_id\<rparr>) \<and>
      fst (rag_retrieval_tool_try env query session_id path bot_id st) =
        Inl (NameError ''logger'', session_id, query) \<and>
      fst (rag_retrieval_tool env query session_id path bot_id st) =
        Inr (Text ''Error retrieving context from Pinecone: name 'logger' is not defined''))"
proof -
  have a: "fst (get_session_context query st) = Inl (NameError ''logger'')"
    by (simp add: get_session_context_eq)
  have b: "has_context_tag query \<Longrightarrow>
      fst (book_appointment_try env query session_id bot_id st) =
        Inl (NameError ''logger'', session_id)"
    by (simp add: book_appointment_try_def get_session_context_eq)
  have c: "has_context_tag query \<Longrightarrow>
      fst (rag_retrieval_tool_try env query session_id path bot_id st) =
        Inl (NameError ''logger'', session_id, query)"
    by (simp add: rag_retrieval_tool_try_def get_session_context_eq)
  show ?thesis
    using a b c has_context_tagI [of query]
      book_appointment_tool_tagged [of query env session_id bot_id st]
      rag_retrieval_tool_tagged [of query env session_id path bot_id st]
    by blast
qed

theorem get_session_context_always_raises_witness:
  "py_in ''[PATH:'' ''[PATH: e1/x/QApixW] hi'' \<and>
   fst (get_session_context ''[PATH: e1/x/QApixW] hi'' fresh_state) =
     Inl (NameError ''logger'') \<and>
   fst (book_appointment_tool sample_env ''[PATH: e1/x/QApixW] hi'' (Some ''s1'') None
          fresh_state) =
     Inr (Json \<lparr>reply_text = ''Sorry, I couldn't open the booking form at this moment.'',
                form_url = None, success = False, reply_session_id = Some ''s1''\<rparr>) \<and>
   fst (rag_retrieval_tool sample_env ''[PATH: e1/x/QApixW] hi'' (Some ''s1'') None None
          fresh_state) =
     Inr (Text ''Error retrieving context from Pinecone: name 'logger' is not defined'')"
proof -
  have m: "py_in ''[PATH:'' ''[PATH: e1/x/QApixW] hi''"
    by simp
  show ?thesis
    using m get_session_context_always_raises
      [of "''[PATH: e1/x/QApixW] hi''" fresh_state sample_env "Some ''s1''" None None]
    by simp
qed

section \<open>The replies of the tools\<close>

lemma not_falsy_session_or_fallback: "\<not> falsy (session_or_fallback sid)"
  by (simp add: session_or_fallback_def falsy_def)

lemma not_falsy_tagged_session: "\<not> falsy (tagged_session q sid)"
  by (simp add: tagged_session_def py_or_def not_falsy_session_or_fallback)

lemma fst_try_case:
  "fst (case x of (Inl (e, s), st1) \<Rightarrow> (B e s, S2 e s st1) | (Inr r, st1) \<Rightarrow> (A r, S1 r st1)) =
     (case fst x of Inl (e, s) \<Rightarrow> B e s | Inr r \<Rightarrow> A r)"
  by (cases x; cases "fst x") auto

lemma cancel_try_fst:
  "fst (cancel_appointment_tool_try env q sid p b st) =
     (case fst (get_session_logger env ''MCP Server'' (session_or_fallback sid) INFO st) of
        Inl e \<Rightarrow> Inl (e, session_or_fallback sid)
      | Inr lg \<Rightarrow>
          Inr \<lparr>reply_text = ''I'm opening the appointment cancellation form for you. Please fill it out to cancel your appointment.'',
               form_url = Some (with_session env (cancelAppointmentFormUrl env) (tagged_session q sid)),
               success = True,
               reply_session_id = tagged_session q sid\<rparr>)"
  unfolding cancel_appointment_tool_try_def Let_def session_or_fallback_def [symmetric]
  by (cases "get_session_logger env ''MCP Server'' (session_or_fallback sid) INFO st";
      cases "fst (get_session_logger env ''MCP Server'' (session_or_fallback sid) INFO st)")
     (simp_all add: case_prod_beta tagged_session_def)

lemma cancel_tool_fst:
  "fst (cancel_appointment_tool env q sid p b st) =
     (case fst (get_session_logger env ''MCP Server'' (session_or_fallback sid) INFO st) of
        Inl e \<Rightarrow>
          Inr (Json \<lparr>reply_text = ''Sorry, I couldn't open the appointment cancellation form at this moment.'',
                     form_url = None, success = False,
                     reply_session_id = session_or_fallback sid\<rparr>)
      | Inr lg \<Rightarrow>
          Inr (Json \<lparr>reply_text = ''I'm opening the appointment cancellation form for you. Please fill it out to cancel your appointment.'',
               form_url = Some (with_session env (cancelAppointmentFormUrl env) (tagged_session q sid)),
               success = True,
               reply_session_id = tagged_session q sid\<rparr>))"
  unfolding cancel_appointment_tool_def fst_try_case cancel_try_fst
  by (simp split: sum.splits)


lemma reschedule_try_fst:
  "fst (reschedule_appointment_tool_try env q sid p b st) =
     (case fst (get_session_logger env ''MCP Server'' (session_or_fallback sid) INFO st) of
        Inl e \<Rightarrow> Inl (e, session_or_fallback sid)
      | Inr lg \<Rightarrow>
          Inr \<lparr>reply_text = ''I'm opening the appointment rescheduling form for you. Please fill it out to reschedule your appointment.'',
               form_url = Some (with_session env (rescheduleAppointmentFormUrl env) (tagged_session q sid)),
               success = True,
               reply_session_id = tagged_session q sid\<rparr>)"
  unfolding reschedule_appointment_tool_try_def Let_def session_or_fallback_def [symmetric]
  by (cases "get_session_logger env ''MCP Server'' (session_or_fallback sid) INFO st";
      cases "fst (get_session_logger env ''MCP Server'' (session_or_fallback sid) INFO st)")
     (simp_all add: case_prod_beta tagged_session_def)

lemma reschedule_tool_fst:
  "fst (reschedule_appointment_tool env q sid p b st) =
     (case fst (get_session_logger env ''MCP Server'' (session_or_fallback sid) INFO st) of
        Inl e \<Rightarrow>
          Inr (Json \<lparr>reply_text = ''Sorry, I couldn't open the appointment rescheduling form at this moment.'',
                     form_url = None, success = False,
                     reply_session_id = session_or_fallback sid\<rparr>)
      | Inr lg \<Rightarrow>
          Inr (Json \<lparr>reply_text = ''I'm opening the appointment rescheduling form for you. Please fill it out to reschedule your appointment.'',
               form_url = Some (with_session env (rescheduleAppointmentFormUrl env) (tagged_session q sid)),
               success = True,
               reply_session_id = tagged_session q sid\<rparr>))"
  unfolding reschedule_appointment_tool_def fst_try_case reschedule_try_fst
  by (simp split: sum.splits)

lemma book_try_fst_untagged:
  "\<not> has_context_tag q \<Longrightarrow>
   fst (book_appointment_try env q sid bid st) =
     (case fst (get_session_logger env ''MCP Server'' (session_or_fallback sid) INFO st) of
        Inl e \<Rightarrow> Inl (e, session_or_fallback sid)
      | Inr lg \<Rightarrow>
          Inr \<lparr>reply_text = ''I'm opening the appointment booking form for you. Please fill it out to book your appointment.'',
               form_url = Some (with_session env
                    (if bid = Some ''fp01'' then FORM_URL_2 env else FORM_URL_1 env)
                    (session_or_fallback sid)),
               success = True,
               reply_session_id = session_or_fallback sid\<rparr>)"
  unfolding book_appointment_try_def Let_def session_or_fallback_def [symmetric]
  by (cases "get_session_logger env ''MCP Server'' (session_or_fallback sid) INFO st";
      cases "fst (get_session_logger env ''MCP Server'' (session_or_fallback sid) INFO st)")
     (simp_all add: session_or_fallback_def [symmetric])

lemma book_try_fst_tagged:
  "has_context_tag q \<Longrightarrow>
   fst (book_appointment_try env q sid bid st) = Inl (NameError ''logger'', sid)"
  by (simp add: book_appointment_try_def get_session_context_eq)

lemma book_tool_fst:
  "fst (book_appointment_tool env q sid bid st) =
     (case fst (book_appointment_try env q sid bid st) of
        Inl (e, s) \<Rightarrow>
          Inr (Json \<lparr>reply_text = ''Sorry, I couldn't open the booking form at this moment.'',
                     form_url = None, success = False, reply_session_id = s\<rparr>)
      | Inr r \<Rightarrow> Inr (Json r))"
  unfolding book_appointment_tool_def fst_try_case by simp

lemma fst_try_case3:
  "fst (case x of (Inl (e, s, q), st1) \<Rightarrow> (B e s q, S2 e s q st1) | (Inr r, st1) \<Rightarrow> (A r, S1 r st1)) =
     (case fst x of Inl (e, s, q) \<Rightarrow> B e s q | Inr r \<Rightarrow> A r)"
  by (cases x; cases "fst x") auto

lemma rag_tool_fst:
  "fst (rag_retrieval_tool env q sid p b st) =
     (case fst (rag_retrieval_tool_try env q sid p b st) of
        Inl (e, s, q') \<Rightarrow> Inr (Text (''Error retrieving context from Pinecone: '' @ exn_str e))
      | Inr r \<Rightarrow> Inr (Text r))"
  unfolding rag_retrieval_tool_def fst_try_case3 by simp

lemma rag_try_fst_tagged:
  "has_context_tag q \<Longrightarrow>
   fst (rag_retrieval_tool_try env q sid p b st) = Inl (NameError ''logger'', sid, q)"
  by (simp add: rag_retrieval_tool_try_def get_session_context_eq)

lemma rag_try_fst_untagged:
  "\<not> has_context_tag q \<Longrightarrow>
   fst (rag_retrieval_tool_try env q sid p b st) =
     (case fst (get_session_logger env ''MCP Server'' (session_or_fallback sid) INFO st) of
        Inl e \<Rightarrow> Inl (e, session_or_fallback sid, q)
      | Inr lg \<Rightarrow>
          (case search_records env (rag_namespace p b) q of
             Inl e \<Rightarrow> Inl (e, session_or_fallback sid, q)
           | Inr results \<Rightarrow>
               if results = [] then Inr ''Sorry, I couldn't find any relevant information.''
               else Inr (''Here's what I found:'' @ [CHR 0x0A, CHR 0x0A] @ hits_str results)))"
  unfolding rag_retrieval_tool_try_def Let_def session_or_fallback_def [symmetric]
  by (cases "get_session_logger env ''MCP Server'' (session_or_fallback sid) INFO st";
      cases "fst (get_session_logger env ''MCP Server'' (session_or_fallback sid) INFO st)";
      cases "search_records env (rag_namespace p b) q")
     (auto simp: rag_namespace_def case_prod_beta falsy_def split: if_splits)


lemma log_at_emitted_only: "(log_at lvl a msg st)\<lparr>emitted := e\<rparr> = st\<lparr>emitted := e\<rparr>"
  by (simp add: log_at_def split: option.splits)

lemma log_section_separator_emitted_only:
  "(log_section_separator a t st)\<lparr>emitted := e\<rparr> = st\<lparr>emitted := e\<rparr>"
  by (simp add: log_section_separator_def Let_def log_at_emitted_only)

lemma snd_try_case:
  "snd (case x of (Inl (e, s), st1) \<Rightarrow> (B e s, S2 e s st1) | (Inr r, st1) \<Rightarrow> (A r, st1)) =
     (case fst x of Inl (e, s) \<Rightarrow> S2 e s (snd x) | Inr r \<Rightarrow> snd x)"
  by (cases x; cases "fst x") auto

lemma cancel_try_snd:
  "(snd (cancel_appointment_tool_try env q sid p b st))\<lparr>emitted := []\<rparr> =
     (snd (get_session_logger env ''MCP Server'' (session_or_fallback sid) INFO st))\<lparr>emitted := []\<rparr>"
  unfolding cancel_appointment_tool_try_def Let_def session_or_fallback_def [symmetric]
  by (cases "get_session_logger env ''MCP Server'' (session_or_fallback sid) INFO st";
      cases "fst (get_session_logger env ''MCP Server'' (session_or_fallback sid) INFO st)")
     (simp_all add: case_prod_beta log_at_emitted_only log_section_separator_emitted_only)

lemma cancel_try_snd_raised:
  "fst (get_session_logger env ''MCP Server'' (session_or_fallback sid) INFO st) = Inl e \<Longrightarrow>
   snd (cancel_appointment_tool_try env q sid p b st) =
     snd (get_session_logger env ''MCP Server'' (session_or_fallback sid) INFO st)"
  unfolding cancel_appointment_tool_try_def Let_def session_or_fallback_def [symmetric]
  by (cases "get_session_logger env ''MCP Server'' (session_or_fallback sid) INFO st") simp

lemma cancel_tool_quiet:
  "(snd (cancel_appointment_tool env q sid p1 b1 st))\<lparr>emitted := []\<rparr> =
   (snd (cancel_appointment_tool env q sid p2 b2 st))\<lparr>emitted := []\<rparr>"
proof (cases "fst (get_session_logger env ''MCP Server'' (session_or_fallback sid) INFO st)")
  case (Inl e)
  then show ?thesis
    unfolding cancel_appointment_tool_def snd_try_case
    by (simp add: cancel_try_fst cancel_try_snd_raised)
next
  case (Inr lg)
  then show ?thesis
    unfolding cancel_appointment_tool_def snd_try_case
    by (simp add: cancel_try_fst cancel_try_snd)
qed

section \<open>The registry of session loggers\<close>

lemma get_session_logger_cached:
  "session_loggers st (p @ ''_'' @ (if falsy sid then ''NO_SESSION'' else the sid)) = Some l \<Longrightarrow>
   get_session_logger env p sid lvl st = (Inr l, st)"
  by (simp add: get_session_logger_def Let_def)

lemma get_session_logger_registers:
  assumes "get_session_logger env p sid lvl st = (Inr l, st')"
  shows "session_loggers st' (p @ ''_'' @ (if falsy sid then ''NO_SESSION'' else the sid)) = Some l"
  using assms
  by (auto simp: get_session_logger_def Let_def split: option.splits prod.splits sum.splits if_splits)

lemma get_session_logger_fresh:
  "get_session_logger sample_env ''MCP Server'' (Some sid) INFO fresh_state =
     (if sid = [] then
        (Inr ''MCP Server.NO_SESSION'',
         fresh_state\<lparr>session_loggers := [''MCP Server_NO_SESSION'' \<mapsto> ''MCP Server.NO_SESSION''],
           logger_dict := [''MCP Server.NO_SESSION'' \<mapsto> \<lparr>lg_level = 20, lg_propagate = False,
              lg_handlers = [FileHandler [base_log_dir, ''MCP Server'',
                                ''2025-11-03_SESSION-NO_SESSION.log''] 20,
                             StreamHandler 20]\<rparr>]\<rparr>)
      else
        (Inr (''MCP Server.'' @ sid),
         fresh_state\<lparr>session_loggers := [''MCP Server_'' @ sid \<mapsto> ''MCP Server.'' @ sid],
           logger_dict := [''MCP Server.'' @ sid \<mapsto> \<lparr>lg_level = 20, lg_propagate = False,
              lg_handlers = [FileHandler [base_log_dir, ''MCP Server'',
                                ''2025-11-03_SESSION-'' @ sid @ ''.log''] 20,
                             StreamHandler 20]\<rparr>]\<rparr>))"
  by (simp add: get_session_logger_def create_session_logger_def getLogger_def sample_env_def
        fresh_state_def falsy_def Let_def INFO_def)

lemma get_session_logger_readonly:
  "get_session_logger readonly_env p sid lvl fresh_state =
     (Inl (LibraryError ''Permission denied''), fresh_state)"
  by (simp add: get_session_logger_def create_session_logger_def readonly_env_def
        fresh_state_def Let_def)

lemma get_session_logger_offline:
  "fst (get_session_logger offline_env ''MCP Server'' (Some ''fallback-session-id'') INFO fresh_state) =
     Inr ''MCP Server.fallback-session-id''"
  by (simp add: get_session_logger_def create_session_logger_def getLogger_def offline_env_def
        sample_env_def fresh_state_def falsy_def Let_def INFO_def)

text \<open>
  C7. \<open>get_session_logger\<close> is idempotent per key. The key is the project name, an
  underscore and the session id, an empty or missing session id being replaced by
  \<open>NO_SESSION\<close> first. A call whose key is in the cache returns the cached logger and
  leaves the state as it is; so after a call that returned a logger, a second call for the
  same project and session returns the same logger, with the handlers and the file path
  it had, whatever the environment and the level of the second call.
\<close>

theorem get_session_logger_idempotent:
  "(session_loggers st (project_name @ ''_'' @
       (if falsy session_id then ''NO_SESSION'' else the session_id)) = Some logger \<longrightarrow>
      get_session_logger env project_name session_id log_level st = (Inr logger, st)) \<and>
   (get_session_logger env project_name session_id log_level st = (Inr logger, st') \<longrightarrow>
      get_session_logger env' project_name session_id log_level' st' = (Inr logger, st')) \<and>
   get_session_logger env project_name None log_level st =
     get_session_logger env project_name (Some ''NO_SESSION'') log_level st \<and>
   get_session_logger env project_name (Some []) log_level st =
     get_session_logger env project_name (Some ''NO_SESSION'') log_level st"
proof -
  have "get_session_logger env project_name session_id log_level st = (Inr logger, st') \<Longrightarrow>
        get_session_logger env' project_name session_id log_level' st' = (Inr logger, st')"
    using get_session_logger_registers get_session_logger_cached by blast
  moreover have "get_session_logger env project_name None log_level st =
     get_session_logger env project_name (Some ''NO_SESSION'') log_level st"
    by (simp add: get_session_logger_def falsy_def)
  moreover have "get_session_logger env project_name (Some []) log_level st =
     get_session_logger env project_name (Some ''NO_SESSION'') log_level st"
    by (simp add: get_session_logger_def falsy_def)
  ultimately show ?thesis
    using get_session_logger_cached by blast
qed

theorem get_session_logger_idempotent_witness:
  "get_session_logger sample_env ''MCP Server'' (Some ''s1'') INFO fresh_state =
     (Inr ''MCP Server.s1'',
      snd (get_session_logger sample_env ''MCP Server'' (Some ''s1'') INFO fresh_state)) \<and>
   session_loggers (snd (get_session_logger sample_env ''MCP Server'' (Some ''s1'') INFO fresh_state))
     ''MCP Server_s1'' = Some ''MCP Server.s1'' \<and>
   get_session_logger readonly_env ''MCP Server'' (Some ''s1'') ERROR
       (snd (get_session_logger sample_env ''MCP Server'' (Some ''s1'') INFO fresh_state)) =
     (Inr ''MCP Server.s1'',
      snd (get_session_logger sample_env ''MCP Server'' (Some ''s1'') INFO fresh_state)) \<and>
   logger_dict (snd (get_session_logger sample_env ''MCP Server'' (Some ''s1'') INFO fresh_state))
     ''MCP Server.s1'' =
     Some \<lparr>lg_level = 20, lg_propagate = False,
           lg_handlers = [FileHandler [base_log_dir, ''MCP Server'', ''2025-11-03_SESSION-s1.log''] 20,
                          StreamHandler 20]\<rparr>"
proof -
  have a: "get_session_logger sample_env ''MCP Server'' (Some ''s1'') INFO fresh_state =
     (Inr ''MCP Server.s1'',
      snd (get_session_logger sample_env ''MCP Server'' (Some ''s1'') INFO fresh_state))"
    by (simp add: get_session_logger_fresh)
  have k: "''MCP Server'' @ ''_'' @ (if falsy (Some ''s1'') then ''NO_SESSION'' else the (Some ''s1''))
           = ''MCP Server_s1''"
    by (simp add: falsy_def)
  have b: "session_loggers
       (snd (get_session_logger sample_env ''MCP Server'' (Some ''s1'') INFO fresh_state))
       ''MCP Server_s1'' = Some ''MCP Server.s1''"
    by (simp add: get_session_logger_fresh)
  have c: "logger_dict (snd (get_session_logger sample_env ''MCP Server'' (Some ''s1'') INFO fresh_state))
     ''MCP Server.s1'' =
     Some \<lparr>lg_level = 20, lg_propagate = False,
           lg_handlers = [FileHandler [base_log_dir, ''MCP Server'', ''2025-11-03_SESSION-s1.log''] 20,
                          StreamHandler 20]\<rparr>"
    by (simp add: get_session_logger_fresh)
  show ?thesis
    using a b c
      get_session_logger_idempotent
        [of "snd (get_session_logger sample_env ''MCP Server'' (Some ''s1'') INFO fresh_state)"
            "''MCP Server''" "Some ''s1''" "''MCP Server.s1''" readonly_env ERROR]
      get_session_logger_idempotent
        [of fresh_state "''MCP Server''" "Some ''s1''" "''MCP Server.s1''" sample_env INFO
            "snd (get_session_logger sample_env ''MCP Server'' (Some ''s1'') INFO fresh_state)"
            readonly_env ERROR]
    unfolding k by blast
qed

section \<open>Properties of the tools\<close>

lemma reschedule_try_snd:
  "(snd (reschedule_appointment_tool_try env q sid p b st))\<lparr>emitted := []\<rparr> =
     (snd (get_session_logger env ''MCP Server'' (session_or_fallback sid) INFO st))\<lparr>emitted := []\<rparr>"
  unfolding reschedule_appointment_tool_try_def Let_def session_or_fallback_def [symmetric]
  by (cases "get_session_logger env ''MCP Server'' (session_or_fallback sid) INFO st";
      cases "fst (get_session_logger env ''MCP Server'' (session_or_fallback sid) INFO st)")
     (simp_all add: case_prod_beta log_at_emitted_only log_section_separator_emitted_only)

lemma reschedule_try_snd_raised:
  "fst (get_session_logger env ''MCP Server'' (session_or_fallback sid) INFO st) = Inl e \<Longrightarrow>
   snd (reschedule_appointment_tool_try env q sid p b st) =
     snd (get_session_logger env ''MCP Server'' (session_or_fallback sid) INFO st)"
  unfolding reschedule_appointment_tool_try_def Let_def session_or_fallback_def [symmetric]
  by (cases "get_session_logger env ''MCP Server'' (session_or_fallback sid) INFO st") simp

lemma reschedule_tool_quiet:
  "(snd (reschedule_appointment_tool env q sid p1 b1 st))\<lparr>emitted := []\<rparr> =
   (snd (reschedule_appointment_tool env q sid p2 b2 st))\<lparr>emitted := []\<rparr>"
proof (cases "fst (get_session_logger env ''MCP Server'' (session_or_fallback sid) INFO st)")
  case (Inl e)
  then show ?thesis
    unfolding reschedule_appointment_tool_def snd_try_case
    by (simp add: reschedule_try_fst reschedule_try_snd_raised)
next
  case (Inr lg)
  then show ?thesis
    unfolding reschedule_appointment_tool_def snd_try_case
    by (simp add: reschedule_try_fst reschedule_try_snd)
qed

text \<open>
  C9. The replies of \<open>cancel_appointment_tool\<close> and \<open>reschedule_appointment_tool\<close> do not
  depend on the parameters \<open>path\<close> and \<open>bot_id\<close>: two calls that differ in them only return
  the same reply. The path is never read (the whole result is the same), and the bot id
  reaches the log records only (the states agree once the records are left aside).
\<close>

theorem form_tools_ignore_path_and_bot_id:
  "fst (cancel_appointment_tool env query session_id path1 bot_id1 st) =
     fst (cancel_appointment_tool env query session_id path2 bot_id2 st) \<and>
   fst (reschedule_appointment_tool env query session_id path1 bot_id1 st) =
     fst (reschedule_appointment_tool env query session_id path2 bot_id2 st) \<and>
   cancel_appointment_tool env query session_id path1 bot_id1 st =
     cancel_appointment_tool env query session_id path2 bot_id1 st \<and>
   reschedule_appointment_tool env query session_id path1 bot_id1 st =
     reschedule_appointment_tool env query session_id path2 bot_id1 st \<and>
   (snd (cancel_appointment_tool env query session_id path1 bot_id1 st))\<lparr>emitted := []\<rparr> =
     (snd (cancel_appointment_tool env query session_id path2 bot_id2 st))\<lparr>emitted := []\<rparr> \<and>
   (snd (reschedule_appointment_tool env query session_id path1 bot_id1 st))\<lparr>emitted := []\<rparr> =
     (snd (reschedule_appointment_tool env query session_id path2 bot_id2 st))\<lparr>emitted := []\<rparr>"
proof -
  have "cancel_appointment_tool env query session_id path1 bot_id1 st =
     cancel_appointment_tool env query session_id path2 bot_id1 st"
    by (simp add: cancel_appointment_tool_def cancel_appointment_tool_try_def)
  moreover have "reschedule_appointment_tool env query session_id path1 bot_id1 st =
     reschedule_appointment_tool env query session_id path2 bot_id1 st"
    by (simp add: reschedule_appointment_tool_def reschedule_appointment_tool_try_def)
  moreover have "fst (cancel_appointment_tool env query session_id path1 bot_id1 st) =
     fst (cancel_appointment_tool env query session_id path2 bot_id2 st)"
    by (simp only: cancel_tool_fst)
  moreover have "fst (reschedule_appointment_tool env query session_id path1 bot_id1 st) =
     fst (reschedule_appointment_tool env query session_id path2 bot_id2 st)"
    by (simp only: reschedule_tool_fst)
  ultimately show ?thesis
    using cancel_tool_quiet [of env query session_id path1 bot_id1 st path2 bot_id2]
      reschedule_tool_quiet [of env query session_id path1 bot_id1 st path2 bot_id2]
    by (simp only: simp_thms)
qed

text \<open>
  C6. When \<open>book_appointment_tool\<close> completes normally, the form URL of its reply is
  built from the second form URL exactly when the bot id is \<open>fp01\<close> and from the first one
  otherwise, \<open>None\<close> included; the session id and the millisecond time stamp follow as
  query parameters, after \<open>&\<close> when the form URL has a question mark and after \<open>?\<close> when it
  has none. On a normal completion the bot id is the parameter: a query with a tag
  marker never completes normally.
\<close>

theorem book_form_url_selection:
  assumes "fst (book_appointment_tool env query session_id bot_id st) = Inr (Json r)"
    and "success r"
  shows "form_url r =
           Some ((if bot_id = Some ''fp01'' then FORM_URL_2 env else FORM_URL_1 env) @
                 (if CHR ''?'' \<in> set (if bot_id = Some ''fp01'' then FORM_URL_2 env
                                        else FORM_URL_1 env)
                  then ''&'' else ''?'') @
                 ''session_id='' @ the (reply_session_id r) @
                 ''&ts='' @ str_int (time_ms env)) \<and>
         reply_session_id r = session_or_fallback session_id \<and>
         \<not> falsy (reply_session_id r)"
proof (cases "has_context_tag query")
  case True
  then have "r = \<lparr>reply_text = ''Sorry, I couldn't open the booking form at this moment.'',
                     form_url = None, success = False, reply_session_id = session_id\<rparr>"
    using assms(1) by (simp add: book_tool_fst book_try_fst_tagged)
  then have "\<not> success r" by simp
  then show ?thesis using assms(2) by simp
next
  case False
  obtain s where s: "session_or_fallback session_id = Some s" "s \<noteq> []"
    using not_falsy_session_or_fallback [of session_id]
    by (cases "session_or_fallback session_id") (auto simp: falsy_def)
  show ?thesis
  proof (cases "fst (get_session_logger env ''MCP Server'' (session_or_fallback session_id) INFO st)")
    case (Inl e)
    then have "r = \<lparr>reply_text = ''Sorry, I couldn't open the booking form at this moment.'',
                     form_url = None, success = False,
                     reply_session_id = session_or_fallback session_id\<rparr>"
      using assms(1) False by (simp add: book_tool_fst book_try_fst_untagged)
    then have "\<not> success r" by simp
    then show ?thesis using assms(2) by simp
  next
    case (Inr lg)
    then have "r = \<lparr>reply_text = ''I'm opening the appointment booking form for you. Please fill it out to book your appointment.'',
               form_url = Some (with_session env
                    (if bot_id = Some ''fp01'' then FORM_URL_2 env else FORM_URL_1 env)
                    (session_or_fallback session_id)),
               success = True,
               reply_session_id = session_or_fallback session_id\<rparr>"
      using assms False by (simp add: book_tool_fst book_try_fst_untagged)
    then show ?thesis
      using s by (simp add: with_session_def Let_def py_str_def falsy_def)
  qed
qed

lemma str_int_sample: "str_int 1730000000123 = ''1730000000123''"
  by code_simp

lemma book_sample_reply:
  "fst (book_appointment_tool sample_env ''I need an appointment'' None (Some ''fp01'') fresh_state) =
     Inr (Json \<lparr>reply_text = ''I'm opening the appointment booking form for you. Please fill it out to book your appointment.'',
                form_url = Some ''https://forms.example/book2?src=fp&session_id=fallback-session-id&ts=1730000000123'',
                success = True,
                reply_session_id = Some ''fallback-session-id''\<rparr>)"
proof -
  have t: "\<not> has_context_tag ''I need an appointment''"
    by (simp add: has_context_tag_def)
  have f: "session_or_fallback None = Some ''fallback-session-id''"
    by (simp add: session_or_fallback_def falsy_def)
  have w: "with_session sample_env (FORM_URL_2 sample_env) (Some ''fallback-session-id'') =
      ''https://forms.example/book2?src=fp&session_id=fallback-session-id&ts=1730000000123''"
    by (simp add: with_session_def sample_env_def py_str_def str_int_sample)
  show ?thesis
    unfolding book_tool_fst book_try_fst_untagged [OF t] f get_session_logger_fresh
    by (simp add: w)
qed

theorem book_form_url_selection_witness:
  "fst (book_appointment_tool sample_env ''I need an appointment'' None (Some ''fp01'') fresh_state) =
     Inr (Json \<lparr>reply_text = ''I'm opening the appointment booking form for you. Please fill it out to book your appointment.'',
                form_url = Some ''https://forms.example/book2?src=fp&session_id=fallback-session-id&ts=1730000000123'',
                success = True,
                reply_session_id = Some ''fallback-session-id''\<rparr>) \<and>
   success \<lparr>reply_text = ''I'm opening the appointment booking form for you. Please fill it out to book your appointment.'',
                form_url = Some ''https://forms.example/book2?src=fp&session_id=fallback-session-id&ts=1730000000123'',
                success = True,
                reply_session_id = Some ''fallback-session-id''\<rparr> \<and>
   form_url \<lparr>reply_text = ''I'm opening the appointment booking form for you. Please fill it out to book your appointment.'',
                form_url = Some ''https://forms.example/book2?src=fp&session_id=fallback-session-id&ts=1730000000123'',
                success = True,
                reply_session_id = Some ''fallback-session-id''\<rparr> =
     Some (FORM_URL_2 sample_env @ ''&'' @ ''session_id='' @ ''fallback-session-id'' @ ''&ts='' @
           str_int (time_ms sample_env))"
  (is "?a \<and> ?b \<and> form_url ?r = Some ?u")
proof -
  have b: ?b by simp
  have ev: "(if Some ''fp01'' = Some ''fp01'' then FORM_URL_2 sample_env else FORM_URL_1 sample_env) @
            (if CHR ''?'' \<in> set (if Some ''fp01'' = Some ''fp01'' then FORM_URL_2 sample_env
                                        else FORM_URL_1 sample_env)
             then ''&'' else ''?'') @
            ''session_id='' @ the (reply_session_id ?r) @ ''&ts='' @ str_int (time_ms sample_env) = ?u"
    by (simp add: sample_env_def)
  have "form_url ?r = Some ?u"
    using book_form_url_selection [OF book_sample_reply b] unfolding ev by (rule conjunct1)
  then show ?thesis
    using book_sample_reply b by (intro conjI)
qed

text \<open>
  C3, as stated, fails for \<open>rag_retrieval_tool\<close>: when the index raises, the exception
  is converted into a plain string, not into a reply with a success flag and a session
  id.
\<close>

theorem rag_failure_is_plain_text:
  "isl (fst (rag_retrieval_tool_try offline_env ''opening hours'' None None None fresh_state)) \<and>
   fst (rag_retrieval_tool offline_env ''opening hours'' None None None fresh_state) =
     Inr (Text ''Error retrieving context from Pinecone: connection refused'')"
proof -
  have t: "\<not> has_context_tag ''opening hours''"
    by (simp add: has_context_tag_def)
  have f: "session_or_fallback None = Some ''fallback-session-id''"
    by (simp add: session_or_fallback_def falsy_def)
  have s: "search_records offline_env ns q = Inl (LibraryError ''connection refused'')" for ns q
    by (simp add: offline_env_def sample_env_def)
  have "fst (rag_retrieval_tool_try offline_env ''opening hours'' None None None fresh_state) =
      Inl (LibraryError ''connection refused'', Some ''fallback-session-id'', ''opening hours'')"
    by (simp add: rag_try_fst_untagged [OF t] f get_session_logger_offline s)
  then show ?thesis
    by (simp add: rag_tool_fst exn_str_def)
qed

text \<open>
  C3, amended. Each of the four tools returns normally for every input. An exception
  inside \<open>cancel_appointment_tool\<close> or \<open>reschedule_appointment_tool\<close> becomes a reply with
  \<open>success\<close> false whose session id is the parameter, or the fallback constant when the
  parameter is empty or \<open>None\<close>. An exception inside \<open>book_appointment_tool\<close> becomes a
  reply with \<open>success\<close> false that carries the value the local session id had when the
  exception was raised, which is that same id when the query has no tag marker. An
  exception inside \<open>rag_retrieval_tool\<close> becomes the plain string that starts with
  \<open>Error retrieving context from Pinecone: \<close> and ends with the text of the exception.
\<close>

theorem tools_return_normally:
  "(\<exists>r. fst (book_appointment_tool env query session_id bot_id st) = Inr (Json r)) \<and>
   (\<exists>r. fst (cancel_appointment_tool env query session_id path bot_id st) = Inr (Json r)) \<and>
   (\<exists>r. fst (reschedule_appointment_tool env query session_id path bot_id st) = Inr (Json r)) \<and>
   (\<exists>t. fst (rag_retrieval_tool env query session_id path bot_id st) = Inr (Text t)) \<and>
   (fst (book_appointment_try env query session_id bot_id st) = Inl (e1, s1) \<longrightarrow>
      fst (book_appointment_tool env query session_id bot_id st) =
        Inr (Json \<lparr>reply_text = ''Sorry, I couldn't open the booking form at this moment.'',
                   form_url = None, success = False, reply_session_id = s1\<rparr>) \<and>
      (\<not> has_context_tag query \<longrightarrow> s1 = session_or_fallback session_id)) \<and>
   (fst (cancel_appointment_tool_try env query session_id path bot_id st) = Inl (e2, s2) \<longrightarrow>
      s2 = session_or_fallback session_id \<and>
      fst (cancel_appointment_tool env query session_id path bot_id st) =
        Inr (Json \<lparr>reply_text = ''Sorry, I couldn't open the appointment cancellation form at this moment.'',
                   form_url = None, success = False,
                   reply_session_id = session_or_fallback session_id\<rparr>)) \<and>
   (fst (reschedule_appointment_tool_try env query session_id path bot_id st) = Inl (e3, s3) \<longrightarrow>
      s3 = session_or_fallback session_id \<and>
      fst (reschedule_appointment_tool env query session_id path bot_id st) =
        Inr (Json \<lparr>reply_text = ''Sorry, I couldn't open the appointment rescheduling form at this moment.'',
                   form_url = None, success = False,
                   reply_session_id = session_or_fallback session_id\<rparr>)) \<and>
   (fst (rag_retrieval_tool_try env query session_id path bot_id st) = Inl (e4, s4, q4) \<longrightarrow>
      fst (rag_retrieval_tool env query session_id path bot_id st) =
        Inr (Text (''Error retrieving context from Pinecone: '' @ exn_str e4))) \<and>
   \<not> falsy (session_or_fallback session_id)"
proof -
  have b0: "\<exists>r. fst (book_appointment_tool env query session_id bot_id st) = Inr (Json r)"
    by (simp add: book_tool_fst split: sum.splits prod.splits)
  have c0: "\<exists>r. fst (cancel_appointment_tool env query session_id path bot_id st) = Inr (Json r)"
    by (simp add: cancel_tool_fst split: sum.splits)
  have r0: "\<exists>r. fst (reschedule_appointment_tool env query session_id path bot_id st) = Inr (Json r)"
    by (simp add: reschedule_tool_fst split: sum.splits)
  have g0: "\<exists>t. fst (rag_retrieval_tool env query session_id path bot_id st) = Inr (Text t)"
    by (simp add: rag_tool_fst split: sum.splits prod.splits)
  have b1: "fst (book_appointment_try env query session_id bot_id st) = Inl (e1, s1) \<Longrightarrow>
      fst (book_appointment_tool env query session_id bot_id st) =
        Inr (Json \<lparr>reply_text = ''Sorry, I couldn't open the booking form at this moment.'',
                   form_url = None, success = False, reply_session_id = s1\<rparr>)"
    by (simp add: book_tool_fst)
  have b2: "fst (book_appointment_try env query session_id bot_id st) = Inl (e1, s1) \<Longrightarrow>
      \<not> has_context_tag query \<Longrightarrow> s1 = session_or_fallback session_id"
    by (simp add: book_try_fst_untagged split: sum.splits)
  have c1: "fst (cancel_appointment_tool_try env query session_id path bot_id st) = Inl (e2, s2) \<Longrightarrow>
      s2 = session_or_fallback session_id \<and>
      fst (cancel_appointment_tool env query session_id path bot_id st) =
        Inr (Json \<lparr>reply_text = ''Sorry, I couldn't open the appointment cancellation form at this moment.'',
                   form_url = None, success = False,
                   reply_session_id = session_or_fallback session_id\<rparr>)"
    by (simp add: cancel_tool_fst cancel_try_fst split: sum.splits)
  have r1: "fst (reschedule_appointment_tool_try env query session_id path bot_id st) = Inl (e3, s3) \<Longrightarrow>
      s3 = session_or_fallback session_id \<and>
      fst (reschedule_appointment_tool env query session_id path bot_id st) =
        Inr (Json \<lparr>reply_text = ''Sorry, I couldn't open the appointment rescheduling form at this moment.'',
                   form_url = None, success = False,
                   reply_session_id = session_or_fallback session_id\<rparr>)"
    by (simp add: reschedule_tool_fst reschedule_try_fst split: sum.splits)
  have g1: "fst (rag_retrieval_tool_try env query session_id path bot_id st) = Inl (e4, s4, q4) \<Longrightarrow>
      fst (rag_retrieval_tool env query session_id path bot_id st) =
        Inr (Text (''Error retrieving context from Pinecone: '' @ exn_str e4))"
    by (simp add: rag_tool_fst)
  show ?thesis
    using b0 c0 r0 g0 b1 b2 c1 r1 g1 not_falsy_session_or_fallback [of session_id]
    by blast
qed


theorem tools_return_normally_witness:
  "\<not> has_context_tag ''cancel my visit'' \<and>
   fst (book_appointment_try readonly_env ''cancel my visit'' None None fresh_state) =
     Inl (LibraryError ''Permission denied'', Some ''fallback-session-id'') \<and>
   fst (book_appointment_tool readonly_env ''cancel my visit'' None None fresh_state) =
     Inr (Json \<lparr>reply_text = ''Sorry, I couldn't open the booking form at this moment.'',
                form_url = None, success = False,
                reply_session_id = Some ''fallback-session-id''\<rparr>) \<and>
   fst (cancel_appointment_tool_try readonly_env ''cancel my visit'' None None None fresh_state) =
     Inl (LibraryError ''Permission denied'', Some ''fallback-session-id'') \<and>
   fst (cancel_appointment_tool readonly_env ''cancel my visit'' None None None fresh_state) =
     Inr (Json \<lparr>reply_text = ''Sorry, I couldn't open the appointment cancellation form at this moment.'',
                form_url = None, success = False,
                reply_session_id = Some ''fallback-session-id''\<rparr>) \<and>
   fst (reschedule_appointment_tool_try readonly_env ''cancel my visit'' None None None fresh_state) =
     Inl (LibraryError ''Permission denied'', Some ''fallback-session-id'') \<and>
   fst (reschedule_appointment_tool readonly_env ''cancel my visit'' None None None fresh_state) =
     Inr (Json \<lparr>reply_text = ''Sorry, I couldn't open the appointment rescheduling form at this moment.'',
                form_url = None, success = False,
                reply_session_id = Some ''fallback-session-id''\<rparr>) \<and>
   fst (rag_retrieval_tool_try readonly_env ''cancel my visit'' None None None fresh_state) =
     Inl (LibraryError ''Permission denied'', Some ''fallback-session-id'', ''cancel my visit'') \<and>
   fst (rag_retrieval_tool readonly_env ''cancel my visit'' None None None fresh_state) =
     Inr (Text (''Error retrieving context from Pinecone: '' @ ''Permission denied''))"
proof -
  have t: "\<not> has_context_tag ''cancel my visit''"
    by (simp add: has_context_tag_def)
  have f: "session_or_fallback None = Some ''fallback-session-id''"
    by (simp add: session_or_fallback_def falsy_def)
  have x: "exn_str (LibraryError ''Permission denied'') = ''Permission denied''"
    by (simp add: exn_str_def)
  have h1: "fst (book_appointment_try readonly_env ''cancel my visit'' None None fresh_state) =
     Inl (LibraryError ''Permission denied'', Some ''fallback-session-id'')"
    by (simp add: book_try_fst_untagged [OF t] get_session_logger_readonly f)
  have h2: "fst (cancel_appointment_tool_try readonly_env ''cancel my visit'' None None None fresh_state) =
     Inl (LibraryError ''Permission denied'', Some ''fallback-session-id'')"
    by (simp add: cancel_try_fst get_session_logger_readonly f)
  have h3: "fst (reschedule_appointment_tool_try readonly_env ''cancel my visit'' None None None fresh_state) =
     Inl (LibraryError ''Permission denied'', Some ''fallback-session-id'')"
    by (simp add: reschedule_try_fst get_session_logger_readonly f)
  have h4: "fst (rag_retrieval_tool_try readonly_env ''cancel my visit'' None None None fresh_state) =
     Inl (LibraryError ''Permission denied'', Some ''fallback-session-id'', ''cancel my visit'')"
    by (simp add: rag_try_fst_untagged [OF t] get_session_logger_readonly f)
  show ?thesis
    using t h1 h2 h3 h4
      tools_return_normally
        [of readonly_env "''cancel my visit''" None None fresh_state None
            "LibraryError ''Permission denied''" "Some ''fallback-session-id''"
            "LibraryError ''Permission denied''" "Some ''fallback-session-id''"
            "LibraryError ''Permission denied''" "Some ''fallback-session-id''"
            "LibraryError ''Permission denied''" "Some ''fallback-session-id''"
            "''cancel my visit''"]
    unfolding f x by blast
qed

text \<open>
  C1. The session id of a reply is never empty or \<open>None\<close>. The code breaks this in
  \<open>book_appointment_tool\<close>: for a query with a session tag and no session id parameter
  the reply carries \<open>None\<close>, although the message embeds the session id \<open>abc\<close>;
  \<open>cancel_appointment_tool\<close> returns \<open>abc\<close> for the same call.
\<close>

theorem book_reply_null_session_id:
  "ctx_session_id (extract_context_from_message ''[SESSION_ID: abc] book a visit'') = Some ''abc'' \<and>
   fst (book_appointment_tool env ''[SESSION_ID: abc] book a visit'' None None st) =
     Inr (Json \<lparr>reply_text = ''Sorry, I couldn't open the booking form at this moment.'',
                form_url = None, success = False, reply_session_id = None\<rparr>) \<and>
   fst (cancel_appointment_tool sample_env ''[SESSION_ID: abc] book a visit'' None None None
          fresh_state) =
     Inr (Json \<lparr>reply_text = ''I'm opening the appointment cancellation form for you. Please fill it out to cancel your appointment.'',
                form_url = Some (with_session sample_env (cancelAppointmentFormUrl sample_env)
                                   (Some ''abc'')),
                success = True, reply_session_id = Some ''abc''\<rparr>)"
proof -
  have e: "extract_context_from_message ''[SESSION_ID: abc] book a visit'' =
      \<lparr>ctx_session_id = Some ''abc'', ctx_path = None, ctx_bot_id = None,
       ctx_clean_message = ''book a visit''\<rparr>"
    by code_simp
  have t: "has_context_tag ''[SESSION_ID: abc] book a visit''"
    by (simp add: has_context_tag_def)
  have f: "session_or_fallback None = Some ''fallback-session-id''"
    by (simp add: session_or_fallback_def falsy_def)
  have g: "tagged_session ''[SESSION_ID: abc] book a visit'' None = Some ''abc''"
    by (simp add: tagged_session_def t e py_or_def falsy_def)
  have c: "fst (cancel_appointment_tool sample_env ''[SESSION_ID: abc] book a visit'' None None None
          fresh_state) =
     Inr (Json \<lparr>reply_text = ''I'm opening the appointment cancellation form for you. Please fill it out to cancel your appointment.'',
                form_url = Some (with_session sample_env (cancelAppointmentFormUrl sample_env)
                                   (Some ''abc'')),
                success = True, reply_session_id = Some ''abc''\<rparr>)"
    by (simp add: cancel_tool_fst f g get_session_logger_fresh)
  show ?thesis
    using book_appointment_tool_tagged [OF t, of env None None st] c by (simp add: e)
qed

end
